theory Spec2Isabelle
  imports Complex_Main "HOL-Library.AList"
begin

section \<open>Python values used by the server\<close>

text \<open>
  Strings are Python \<open>str\<close> values restricted to code points below 256, one
  \<open>char\<close> per code point.  A socket is the integer handle that
  \<open>ws2_32.accept\<close> returns (CustomSocket.py, \<open>accept_connection\<close>); an
  \<open>if sock:\<close> test on it is Python truthiness of an integer, and a slot that
  holds \<open>None\<close> is \<open>None\<close> here.  A \<open>dict\<close> is an association list in
  insertion order with one entry per key: assignment is \<open>AList.update\<close>
  (an existing key keeps its place, a new one goes last), \<open>del\<close> is
  \<open>AList.delete\<close>, \<open>get\<close> is \<open>map_of\<close>.
\<close>

type_synonym socket = int

definition truthy_socket :: "socket option \<Rightarrow> bool" where
  "truthy_socket s = (case s of None \<Rightarrow> False | Some h \<Rightarrow> h \<noteq> 0)"

definition truthy_str :: "string option \<Rightarrow> bool" where
  "truthy_str s = (case s of None \<Rightarrow> False | Some t \<Rightarrow> t \<noteq> [])"

text \<open>
  \<open>str.strip()\<close> removes the leading and trailing characters for which
  \<open>str.isspace\<close> holds; \<open>str.split("|")\<close> cuts at every separator and always
  returns at least one part; \<open>int(s)\<close> accepts surrounding whitespace, one
  sign, and decimal digits with single underscores between them, and raises
  \<open>ValueError\<close> (here \<open>None\<close>) on anything else.  The whitespace that
  \<open>int\<close> skips is not that of \<open>strip\<close>: the separators with the codes 28
  to 31 are stripped by \<open>strip\<close> and refused by \<open>int\<close>.  A text of more
  than 4300 digits is refused too (the interpreter's default
  \<open>int_max_str_digits\<close>, which the server does not change).
\<close>

definition py_isspace :: "char \<Rightarrow> bool" where
  "py_isspace c = ((of_char c :: nat) \<in> {9, 10, 11, 12, 13, 28, 29, 30, 31, 32, 133, 160})"

definition strip :: "string \<Rightarrow> string" where
  "strip s = rev (dropWhile py_isspace (rev (dropWhile py_isspace s)))"

fun split_on :: "char \<Rightarrow> string \<Rightarrow> string list" where
  "split_on sep [] = [[]]"
| "split_on sep (c # cs) =
     (if c = sep then [] # split_on sep cs
      else (case split_on sep cs of
              [] \<Rightarrow> [[c]]
            | p # ps \<Rightarrow> (c # p) # ps))"

definition py_int_isspace :: "char \<Rightarrow> bool" where
  "py_int_isspace c = ((of_char c :: nat) \<in> {9, 10, 11, 12, 13, 32, 133, 160})"

definition int_strip :: "string \<Rightarrow> string" where
  "int_strip s = rev (dropWhile py_int_isspace (rev (dropWhile py_int_isspace s)))"

definition is_digit :: "char \<Rightarrow> bool" where
  "is_digit c = (c \<in> set ''0123456789'')"

fun digits_ok :: "string \<Rightarrow> bool" where
  "digits_ok [] = False"
| "digits_ok [c] = is_digit c"
| "digits_ok (c # d # r) =
     (is_digit c \<and> (if d = CHR ''_'' then r \<noteq> [] \<and> digits_ok r else digits_ok (d # r)))"

definition digits_value :: "string \<Rightarrow> int" where
  "digits_value s = foldl (\<lambda>a c. 10 * a + (int (of_char c) - 48)) 0 (filter is_digit s)"

definition py_int :: "string \<Rightarrow> int option" where
  "py_int s =
     (let t = int_strip s;
          neg = (t \<noteq> [] \<and> hd t = CHR ''-'');
          body = (if t \<noteq> [] \<and> (hd t = CHR ''-'' \<or> hd t = CHR ''+'') then tl t else t)
      in if digits_ok body \<and> length (filter is_digit body) \<le> 4300
         then Some (if neg then - digits_value body else digits_value body)
         else None)"

definition py_str :: "string option \<Rightarrow> string" where
  "py_str s = (case s of None \<Rightarrow> ''None'' | Some t \<Rightarrow> t)"

section \<open>session\_manager.py: SessionManager\<close>

record session =
  session_id :: string
  user_id :: string
  role :: string
  name :: string
  login_time :: real
  session_is_active :: bool
  socket :: "socket option"

record session_manager =
  active_sessions :: "(string \<times> session) list"
  session_lookup :: "(string \<times> string) list"
  socket_to_session :: "(socket \<times> string) list"

definition new_session_manager :: session_manager where
  "new_session_manager =
     \<lparr>active_sessions = [], session_lookup = [], socket_to_session = []\<rparr>"

text \<open>
  \<open>create_session\<close>: the token \<open>str(uuid.uuid4())\<close> and \<open>datetime.now()\<close> come
  from the environment and are the arguments \<open>sid\<close> and \<open>now\<close>.
\<close>

definition create_session ::
  "string \<Rightarrow> real \<Rightarrow> string \<Rightarrow> string \<Rightarrow> string \<Rightarrow> socket option \<Rightarrow> session_manager
     \<Rightarrow> session \<times> session_manager" where
  "create_session sid now uid rl nm sock sm =
     (let s = \<lparr>session_id = sid, user_id = uid, role = rl, name = nm,
               login_time = now, session_is_active = True, socket = sock\<rparr>
      in (s, sm\<lparr>active_sessions := AList.update uid s (active_sessions sm),
                session_lookup := AList.update sid uid (session_lookup sm),
                socket_to_session :=
                  (if truthy_socket sock
                   then AList.update (the sock) sid (socket_to_session sm)
                   else socket_to_session sm)\<rparr>))"

definition user_has_active_session :: "session_manager \<Rightarrow> string \<Rightarrow> bool" where
  "user_has_active_session sm uid =
     list_ex (\<lambda>s. user_id s = uid) (map snd (active_sessions sm))"

definition end_session :: "string \<Rightarrow> session_manager \<Rightarrow> bool \<times> session_manager" where
  "end_session sid sm =
     (let u = map_of (session_lookup sm) sid in
      if truthy_str u then
        (let sm1 =
           (case map_of (active_sessions sm) (the u) of
              None \<Rightarrow> sm
            | Some s \<Rightarrow>
                sm\<lparr>socket_to_session :=
                      (if truthy_socket (socket s)
                       then AList.delete (the (socket s)) (socket_to_session sm)
                       else socket_to_session sm),
                    active_sessions := AList.delete (the u) (active_sessions sm)\<rparr>)
         in (True, sm1\<lparr>session_lookup := AList.delete sid (session_lookup sm1)\<rparr>))
      else (False, sm))"

definition get_session_by_id :: "session_manager \<Rightarrow> string \<Rightarrow> session option" where
  "get_session_by_id sm sid =
     (let u = map_of (session_lookup sm) sid in
      if truthy_str u then map_of (active_sessions sm) (the u) else None)"

definition get_session_by_socket :: "session_manager \<Rightarrow> socket option \<Rightarrow> session option" where
  "get_session_by_socket sm sock =
     (case sock of
        None \<Rightarrow> None
      | Some h \<Rightarrow>
          (let sid = map_of (socket_to_session sm) h in
           if truthy_str sid then get_session_by_id sm (the sid) else None))"

definition update_socket :: "string \<Rightarrow> socket option \<Rightarrow> session_manager \<Rightarrow> bool \<times> session_manager" where
  "update_socket sid sock sm =
     (let u = map_of (session_lookup sm) sid in
      if truthy_str u \<and> map_of (active_sessions sm) (the u) \<noteq> None then
        (let s = the (map_of (active_sessions sm) (the u));
             old_socket = socket s;
             s2s1 = (if truthy_socket old_socket
                        \<and> map_of (socket_to_session sm) (the old_socket) \<noteq> None
                     then AList.delete (the old_socket) (socket_to_session sm)
                     else socket_to_session sm);
             s2s2 = (if truthy_socket sock then AList.update (the sock) sid s2s1 else s2s1)
         in (True, sm\<lparr>active_sessions := AList.update (the u) (s\<lparr>socket := sock\<rparr>) (active_sessions sm),
                      socket_to_session := s2s2\<rparr>))
      else (False, sm))"

definition get_session :: "session_manager \<Rightarrow> string \<Rightarrow> session option" where
  "get_session sm uid = map_of (active_sessions sm) uid"

section \<open>server2.py: ChatRoomManager\<close>

text \<open>
  \<open>rooms\<close> maps a tutorial id to a room; a room holds the insertion-ordered
  dictionary \<open>users\<close> (user id to the two slots) and the message log.
  The sockets are integer handles, so the \<open>existing_socket.close()\<close> of
  \<open>add_socket\<close> and the \<open>sockets[socket_type].close()\<close> of \<open>close_room\<close> raise
  \<open>AttributeError\<close> inside a \<open>try\<close> whose bare \<open>except\<close> passes: they have no
  effect, and the model has none for them.
\<close>

record user_sockets =
  primary :: "socket option"
  chat :: "socket option"

record room =
  users :: "(string \<times> user_sockets) list"
  messages :: "string list"

type_synonym rooms = "(string \<times> room) list"

definition add_socket :: "string \<Rightarrow> string \<Rightarrow> socket \<Rightarrow> bool \<Rightarrow> rooms \<Rightarrow> rooms" where
  "add_socket tutorial_id uid sock is_chat_socket rs =
     (let r0 = (case map_of rs tutorial_id of
                  None \<Rightarrow> \<lparr>users = [], messages = []\<rparr>
                | Some r \<Rightarrow> r);
          us0 = (case map_of (users r0) uid of
                   None \<Rightarrow> \<lparr>primary = None, chat = None\<rparr>
                 | Some us \<Rightarrow> us);
          us1 = (if is_chat_socket then us0\<lparr>chat := Some sock\<rparr>
                 else us0\<lparr>primary := Some sock\<rparr>)
      in AList.update tutorial_id (r0\<lparr>users := AList.update uid us1 (users r0)\<rparr>) rs)"

definition clear_socket :: "socket \<Rightarrow> user_sockets \<Rightarrow> user_sockets" where
  "clear_socket dead_socket us =
     (let us1 = (if primary us = Some dead_socket then us\<lparr>primary := None\<rparr> else us)
      in if chat us1 = Some dead_socket then us1\<lparr>chat := None\<rparr> else us1)"

definition remove_dead_socket :: "string \<Rightarrow> socket \<Rightarrow> rooms \<Rightarrow> rooms" where
  "remove_dead_socket tutorial_id dead_socket rs =
     (case map_of rs tutorial_id of
        None \<Rightarrow> rs
      | Some r \<Rightarrow>
          AList.update tutorial_id
            (r\<lparr>users := map (\<lambda>(u, us). (u, clear_socket dead_socket us)) (users r)\<rparr>) rs)"

text \<open>
  \<open>exclude_user_id and user_id == exclude_user_id\<close>: an empty or absent
  \<open>exclude_user_id\<close> excludes nobody.
\<close>

definition excluded :: "string option \<Rightarrow> string \<Rightarrow> bool" where
  "excluded exclude_user_id uid = (truthy_str exclude_user_id \<and> Some uid = exclude_user_id)"

definition get_primary_sockets :: "rooms \<Rightarrow> string \<Rightarrow> string option \<Rightarrow> socket list" where
  "get_primary_sockets rs tutorial_id exclude_user_id =
     (case map_of rs tutorial_id of
        None \<Rightarrow> []
      | Some r \<Rightarrow>
          concat (map (\<lambda>(u, us).
            if excluded exclude_user_id u then []
            else if truthy_socket (primary us) then [the (primary us)] else []) (users r)))"

definition get_chat_sockets :: "rooms \<Rightarrow> string \<Rightarrow> string option \<Rightarrow> socket list" where
  "get_chat_sockets rs tutorial_id exclude_user_id =
     (case map_of rs tutorial_id of
        None \<Rightarrow> []
      | Some r \<Rightarrow>
          concat (map (\<lambda>(u, us).
            if excluded exclude_user_id u then []
            else if truthy_socket (chat us) then [the (chat us)] else []) (users r)))"

definition get_all_sockets :: "rooms \<Rightarrow> string \<Rightarrow> string option \<Rightarrow> socket list" where
  "get_all_sockets rs tutorial_id exclude_user_id =
     (case map_of rs tutorial_id of
        None \<Rightarrow> []
      | Some r \<Rightarrow>
          concat (map (\<lambda>(u, us).
            if excluded exclude_user_id u then []
            else (if truthy_socket (primary us) then [the (primary us)] else [])
               @ (if truthy_socket (chat us) then [the (chat us)] else [])) (users r)))"

definition remove_user :: "string \<Rightarrow> string \<Rightarrow> rooms \<Rightarrow> bool \<times> rooms" where
  "remove_user tutorial_id uid rs =
     (case map_of rs tutorial_id of
        None \<Rightarrow> (False, rs)
      | Some r \<Rightarrow>
          if map_of (users r) uid \<noteq> None
          then (True, AList.update tutorial_id (r\<lparr>users := AList.delete uid (users r)\<rparr>) rs)
          else (False, rs))"

definition close_room :: "string \<Rightarrow> rooms \<Rightarrow> bool \<times> rooms" where
  "close_room tutorial_id rs =
     (if map_of rs tutorial_id \<noteq> None then (True, AList.delete tutorial_id rs)
      else (False, rs))"

definition is_active :: "rooms \<Rightarrow> string \<Rightarrow> bool" where
  "is_active rs tutorial_id =
     (case map_of rs tutorial_id of
        None \<Rightarrow> False
      | Some r \<Rightarrow> length (users r) > 0)"

section \<open>db.py: the tables and the chat and attendance operations\<close>

text \<open>
  A table with a primary key is an association list on that key; \<open>attendance\<close>,
  whose key is an auto-increment id, is the list of its rows in insertion
  order.  SQL equality on the identifiers is equality of strings.  The
  \<open>DOUBLE\<close> timestamps of \<open>time.time()\<close> are real numbers, and \<open>int(x)\<close> on
  them truncates towards zero.  \<open>time.time()\<close> and \<open>uuid.uuid4()\<close> are
  arguments.  An insert that breaks a foreign key raises.
\<close>

record user_row =
  u_name :: string
  password_hash :: string
  u_role :: string
  profile_pic :: "string option"

record chat_row =
  tutor_id :: string
  start_time :: real
  end_time :: real
  chat_session_id :: string

record attendance_row =
  a_chat_session_id :: string
  a_tutorial_id :: string
  student_id :: string
  first_join_time :: real
  last_seen_time :: real
  total_duration_seconds :: int
  is_present :: bool

record database =
  users_tbl :: "(string \<times> user_row) list"
  tutorials_tbl :: "(string \<times> string) list"
  assignments_tbl :: "(string \<times> string) list"
  active_chats_tbl :: "(string \<times> chat_row) list"
  attendance_tbl :: "attendance_row list"

datatype db_error = IntegrityError

definition py_int_of_float :: "real \<Rightarrow> int" where
  "py_int_of_float x = (if 0 \<le> x then \<lfloor>x\<rfloor> else \<lceil>x\<rceil>)"

definition get_user :: "database \<Rightarrow> string \<Rightarrow> user_row option" where
  "get_user d uid = map_of (users_tbl d) uid"

definition get_active_chat :: "database \<Rightarrow> string \<Rightarrow> chat_row option" where
  "get_active_chat d tutorial_id = map_of (active_chats_tbl d) tutorial_id"

definition start_chat ::
  "real \<Rightarrow> string \<Rightarrow> string \<Rightarrow> string \<Rightarrow> int \<Rightarrow> database
     \<Rightarrow> db_error + (string option \<times> database)" where
  "start_chat now new_id tutorial_id tutor duration d =
     (if get_active_chat d tutorial_id \<noteq> None then Inr (None, d)
      else if map_of (tutorials_tbl d) tutorial_id = None \<or> map_of (users_tbl d) tutor = None
      then Inl IntegrityError
      else Inr (Some new_id,
             d\<lparr>active_chats_tbl :=
                  AList.update tutorial_id
                    \<lparr>tutor_id = tutor, start_time = now,
                     end_time = now + real_of_int (duration * 60),
                     chat_session_id = new_id\<rparr> (active_chats_tbl d)\<rparr>))"

definition end_chat :: "string \<Rightarrow> database \<Rightarrow> bool \<times> database" where
  "end_chat tutorial_id d =
     (True, d\<lparr>active_chats_tbl := AList.delete tutorial_id (active_chats_tbl d)\<rparr>)"

definition get_students_in_tutorial :: "database \<Rightarrow> string \<Rightarrow> string list" where
  "get_students_in_tutorial d tutorial_id =
     map fst (filter (\<lambda>(u, t). t = tutorial_id \<and>
                (case map_of (users_tbl d) u of
                   None \<Rightarrow> False
                 | Some ur \<Rightarrow> u_role ur = ''student'')) (assignments_tbl d))"

definition initialize_attendance_for_session :: "string \<Rightarrow> string \<Rightarrow> database \<Rightarrow> database" where
  "initialize_attendance_for_session cid tutorial_id d =
     d\<lparr>attendance_tbl := attendance_tbl d @
          map (\<lambda>s. \<lparr>a_chat_session_id = cid, a_tutorial_id = tutorial_id, student_id = s,
                    first_join_time = 0, last_seen_time = 0,
                    total_duration_seconds = 0, is_present = False\<rparr>)
              (get_students_in_tutorial d tutorial_id)\<rparr>"

definition row_of :: "string \<Rightarrow> string \<Rightarrow> attendance_row \<Rightarrow> bool" where
  "row_of cid sid r = (a_chat_session_id r = cid \<and> student_id r = sid)"

definition update_rows ::
  "string \<Rightarrow> string \<Rightarrow> (attendance_row \<Rightarrow> attendance_row) \<Rightarrow> database \<Rightarrow> database" where
  "update_rows cid sid f d =
     d\<lparr>attendance_tbl := map (\<lambda>r. if row_of cid sid r then f r else r) (attendance_tbl d)\<rparr>"

definition mark_student_present ::
  "real \<Rightarrow> string \<Rightarrow> string \<Rightarrow> string \<Rightarrow> database \<Rightarrow> db_error + database" where
  "mark_student_present now cid tutorial_id sid d =
     (case find (row_of cid sid) (attendance_tbl d) of
        Some r \<Rightarrow>
          if \<not> is_present r then
            (let d1 = update_rows cid sid (\<lambda>x. x\<lparr>is_present := True, last_seen_time := now\<rparr>) d
             in if first_join_time r = 0
                then Inr (update_rows cid sid (\<lambda>x. x\<lparr>first_join_time := now\<rparr>) d1)
                else Inr d1)
          else Inr d
      | None \<Rightarrow>
          if map_of (users_tbl d) sid = None \<or> map_of (tutorials_tbl d) tutorial_id = None
          then Inl IntegrityError
          else Inr (d\<lparr>attendance_tbl := attendance_tbl d @
                       [\<lparr>a_chat_session_id = cid, a_tutorial_id = tutorial_id, student_id = sid,
                         first_join_time = now, last_seen_time = now,
                         total_duration_seconds = 0, is_present = True\<rparr>]\<rparr>))"

definition disconnect_attendance :: "real \<Rightarrow> string \<Rightarrow> string \<Rightarrow> database \<Rightarrow> database" where
  "disconnect_attendance now cid sid d =
     (case find (\<lambda>r. row_of cid sid r \<and> is_present r) (attendance_tbl d) of
        Some r \<Rightarrow>
          (let additional_duration = py_int_of_float (now - last_seen_time r);
               new_total_duration = total_duration_seconds r + additional_duration
           in update_rows cid sid
                (\<lambda>x. x\<lparr>is_present := False, total_duration_seconds := new_total_duration,
                       last_seen_time := now\<rparr>) d)
      | None \<Rightarrow> d)"

text \<open>
  The record of a pair, as \<open>fetchone\<close> reads it, and a run of join and leave
  calls: a call that raises commits nothing.
\<close>

definition attendance_record :: "database \<Rightarrow> string \<Rightarrow> string \<Rightarrow> attendance_row option" where
  "attendance_record d cid sid = find (row_of cid sid) (attendance_tbl d)"

definition first_present :: "database \<Rightarrow> string \<Rightarrow> string \<Rightarrow> attendance_row option" where
  "first_present d cid sid = find (\<lambda>r. row_of cid sid r \<and> is_present r) (attendance_tbl d)"

definition single_record :: "database \<Rightarrow> string \<Rightarrow> string \<Rightarrow> bool" where
  "single_record d cid sid = (length (filter (row_of cid sid) (attendance_tbl d)) \<le> 1)"

datatype transition =
    Join real string string string
  | Leave real string string

fun transition_time :: "transition \<Rightarrow> real" where
  "transition_time (Join now cid tid sid) = now"
| "transition_time (Leave now cid sid) = now"

fun transition_key :: "transition \<Rightarrow> string \<times> string" where
  "transition_key (Join now cid tid sid) = (cid, sid)"
| "transition_key (Leave now cid sid) = (cid, sid)"

fun apply_transition :: "transition \<Rightarrow> database \<Rightarrow> database" where
  "apply_transition (Join now cid tid sid) d =
     (case mark_student_present now cid tid sid d of Inl e \<Rightarrow> d | Inr d' \<Rightarrow> d')"
| "apply_transition (Leave now cid sid) d = disconnect_attendance now cid sid d"

definition clock_ok :: "database \<Rightarrow> transition \<Rightarrow> bool" where
  "clock_ok d tr =
     (case attendance_record d (fst (transition_key tr)) (snd (transition_key tr)) of
        None \<Rightarrow> True
      | Some r \<Rightarrow> last_seen_time r \<le> transition_time tr)"

fun clock_ok_run :: "database \<Rightarrow> transition list \<Rightarrow> bool" where
  "clock_ok_run d [] = True"
| "clock_ok_run d (tr # trs) = (clock_ok d tr \<and> clock_ok_run (apply_transition tr d) trs)"

fun run_transitions :: "transition list \<Rightarrow> database \<Rightarrow> database" where
  "run_transitions [] d = d"
| "run_transitions (tr # trs) d = run_transitions trs (apply_transition tr d)"

section \<open>server2.py: TutorialServer\<close>

text \<open>
  The state a handler works on: the two managers, the tables, and the wire.
  A call that raises is \<open>Raised\<close> with the exception and the state it left.
  \<open>send_data\<close> returns one of four statuses and does not raise; which one is
  the network's choice, \<open>net n h\<close> for the \<open>n\<close>-th send of the run on handle
  \<open>h\<close>.  \<open>sent\<close> logs every \<open>send_data\<close> call with its status, \<open>closed\<close>
  every \<open>close_socket\<close> call, \<open>timers\<close> every timer thread started.
\<close>

datatype sock_status = SOCK_STATUS_OK | SOCK_STATUS_TIMEOUT | SOCK_STATUS_CLOSED | SOCK_STATUS_ERROR

type_synonym network = "nat \<Rightarrow> socket \<Rightarrow> sock_status"

record server =
  session_manager :: session_manager
  chat_manager :: rooms
  db :: database
  sent :: "(socket \<times> string \<times> sock_status) list"
  closed :: "socket list"
  timers :: "(string \<times> int) list"

datatype py_exception = Db_exception db_error | UnicodeDecodeError | Py_exception string

datatype 'a outcome = Returned 'a | Raised py_exception 'a

definition send_data :: "network \<Rightarrow> socket \<Rightarrow> string \<Rightarrow> server \<Rightarrow> sock_status \<times> server" where
  "send_data net sock data w =
     (let st = net (length (sent w)) sock
      in (st, w\<lparr>sent := sent w @ [(sock, data, st)]\<rparr>))"

definition close_socket :: "socket \<Rightarrow> server \<Rightarrow> server" where
  "close_socket sock w = w\<lparr>closed := closed w @ [sock]\<rparr>"

fun send_each :: "network \<Rightarrow> socket list \<Rightarrow> string \<Rightarrow> server \<Rightarrow> server" where
  "send_each net [] data w = w"
| "send_each net (h # hs) data w = send_each net hs data (snd (send_data net h data w))"

subsection \<open>Credential login\<close>

text \<open>
  \<open>checkpw pw hash\<close> is \<open>bcrypt.checkpw\<close>, \<open>None\<close> when it raises.  \<open>serve\<close>
  stands for the three role loops \<open>handle_admin\<close>, \<open>handle_tutor\<close> and
  \<open>handle_student\<close> entered after a successful login; the \<open>finally\<close> block
  runs whether the loop returns or raises.
\<close>

definition handle_credential_auth ::
  "(string \<Rightarrow> string \<Rightarrow> bool option)
     \<Rightarrow> (string \<Rightarrow> socket \<Rightarrow> string \<Rightarrow> string \<Rightarrow> server \<Rightarrow> server outcome)
     \<Rightarrow> network \<Rightarrow> string \<Rightarrow> real \<Rightarrow> socket \<Rightarrow> string \<Rightarrow> server \<Rightarrow> server outcome" where
  "handle_credential_auth checkpw serve net new_sid now client_socket login_data w =
     (let parts = split_on CHR ''|'' (strip login_data) in
      if length parts \<noteq> 2 then
        Returned (close_socket client_socket
          (snd (send_data net client_socket ''FAIL:Malformed login data'' w)))
      else
        (let uid = parts ! 0; password = parts ! 1 in
         case get_user (db w) uid of
           None \<Rightarrow>
             Returned (close_socket client_socket
               (snd (send_data net client_socket ''FAIL:User not found'' w)))
         | Some u \<Rightarrow>
             (case checkpw password (password_hash u) of
                None \<Rightarrow>
                  Returned (close_socket client_socket
                    (snd (send_data net client_socket ''FAIL:Authentication error'' w)))
              | Some False \<Rightarrow>
                  Returned (close_socket client_socket
                    (snd (send_data net client_socket ''FAIL:Incorrect password'' w)))
              | Some True \<Rightarrow>
                  if user_has_active_session (session_manager w) uid then
                    Returned (close_socket client_socket
                      (snd (send_data net client_socket ''FAIL:Already logged in'' w)))
                  else
                    (let (s, sm) = create_session new_sid now uid (u_role u) (u_name u)
                                     (Some client_socket) (session_manager w);
                         w1 = w\<lparr>session_manager := sm\<rparr>;
                         w2 = snd (send_data net client_socket
                                (''SUCCESS|'' @ u_role u @ ''|'' @ u_name u @ ''|'' @ new_sid
                                   @ ''|'' @ py_str (profile_pic u)) w1);
                         r = (if u_role u \<in> {''admin'', ''tutor'', ''student''}
                              then serve (u_role u) client_socket uid new_sid w2
                              else Returned w2);
                         fin = (\<lambda>x. close_socket client_socket
                                  (x\<lparr>session_manager := snd (end_session new_sid (session_manager x))\<rparr>))
                     in case r of
                          Returned w3 \<Rightarrow> Returned (fin w3)
                        | Raised e w3 \<Rightarrow> Raised e (fin w3)))))"

subsection \<open>START\_CHAT and END\_CHAT\<close>

definition handle_start_chat ::
  "network \<Rightarrow> real \<Rightarrow> string \<Rightarrow> socket \<Rightarrow> string list \<Rightarrow> string \<Rightarrow> server \<Rightarrow> server outcome" where
  "handle_start_chat net now new_id client_socket parts tutor w =
     (if length parts < 4 then
        Returned (snd (send_data net client_socket ''FAIL:Invalid command format'' w))
      else
        (let tutorial_id = parts ! 2 in
         case py_int (parts ! 3) of
           None \<Rightarrow> Returned (snd (send_data net client_socket ''FAIL:Invalid duration format'' w))
         | Some duration \<Rightarrow>
             (case start_chat now new_id tutorial_id tutor duration (db w) of
                Inl e \<Rightarrow> Raised (Db_exception e) w
              | Inr (csid, d1) \<Rightarrow>
                  if truthy_str csid then
                    (let w1 = w\<lparr>db := d1\<rparr>;
                         w2 = w1\<lparr>chat_manager :=
                                   add_socket tutorial_id tutor client_socket False (chat_manager w1)\<rparr>;
                         w3 = w2\<lparr>db := initialize_attendance_for_session
                                          (the csid) tutorial_id (db w2)\<rparr>;
                         w4 = w3\<lparr>timers := timers w3 @ [(tutorial_id, duration)]\<rparr>
                     in Returned (snd (send_data net client_socket
                                   (''CHAT_STARTED:'' @ the csid) w4)))
                  else
                    Returned (snd (send_data net client_socket
                               ''FAIL:Chat session already active'' (w\<lparr>db := d1\<rparr>))))))"

definition handle_end_chat :: "network \<Rightarrow> socket \<Rightarrow> string list \<Rightarrow> server \<Rightarrow> server" where
  "handle_end_chat net client_socket parts w =
     (if length parts < 3 then
        snd (send_data net client_socket ''FAIL:Invalid command format'' w)
      else
        (let tutorial_id = parts ! 2;
             w1 = w\<lparr>db := snd (end_chat tutorial_id (db w))\<rparr>;
             w2 = send_each net (get_chat_sockets (chat_manager w1) tutorial_id None)
                    ''CHAT_ENDED'' w1
         in w2\<lparr>chat_manager := snd (close_room tutorial_id (chat_manager w2))\<rparr>))"

subsection \<open>CHAT\_MESSAGE\<close>

text \<open>
  The two loops of \<open>_broadcast_chat_message\<close>, each carrying the count of
  successful sends; \<open>timestamp\<close> is \<open>datetime.now().strftime("%H:%M")\<close>.
\<close>

fun send_to_chat_sockets ::
  "network \<Rightarrow> string \<Rightarrow> string \<Rightarrow> socket list \<Rightarrow> nat \<times> server \<Rightarrow> nat \<times> server" where
  "send_to_chat_sockets net tutorial_id msg [] (n, w) = (n, w)"
| "send_to_chat_sockets net tutorial_id msg (h # hs) (n, w) =
     (let (st, w1) = send_data net h msg w
      in if st = SOCK_STATUS_OK
         then send_to_chat_sockets net tutorial_id msg hs (n + 1, w1)
         else send_to_chat_sockets net tutorial_id msg hs
                (n, w1\<lparr>chat_manager := remove_dead_socket tutorial_id h (chat_manager w1)\<rparr>))"

fun send_to_primary_sockets ::
  "network \<Rightarrow> string \<Rightarrow> socket list \<Rightarrow> nat \<times> server \<Rightarrow> nat \<times> server" where
  "send_to_primary_sockets net msg [] (n, w) = (n, w)"
| "send_to_primary_sockets net msg (h # hs) (n, w) =
     (let (st, w1) = send_data net h msg w
      in if st = SOCK_STATUS_OK
         then send_to_primary_sockets net msg hs (n + 1, w1)
         else send_to_primary_sockets net msg hs (n, w1))"

definition format_message :: "session \<Rightarrow> string \<Rightarrow> string \<Rightarrow> database \<Rightarrow> string" where
  "format_message s timestamp message d =
     (let profile_pic_url = (case get_user d (user_id s) of
                               None \<Rightarrow> None
                             | Some u \<Rightarrow> profile_pic u)
      in ''MESSAGE|'' @ name s @ ''|'' @ user_id s @ ''|'' @ timestamp @ ''|'' @ message
           @ ''|'' @ py_str profile_pic_url)"

definition broadcast_chat_message ::
  "network \<Rightarrow> string \<Rightarrow> socket \<Rightarrow> string \<Rightarrow> string \<Rightarrow> string \<Rightarrow> server \<Rightarrow> bool \<times> server" where
  "broadcast_chat_message net timestamp client_socket sid tutorial_id message w =
     (case get_session_by_id (session_manager w) sid of
        None \<Rightarrow> (False, w)
      | Some s \<Rightarrow>
          (let sender_id = user_id s;
               formatted_message = format_message s timestamp message (db w);
               chat_sockets = get_chat_sockets (chat_manager w) tutorial_id (Some sender_id);
               (n1, w1) = send_to_chat_sockets net tutorial_id formatted_message chat_sockets (0, w);
               (n2, w2) =
                 (if n1 = 0
                  then send_to_primary_sockets net formatted_message
                         (get_primary_sockets (chat_manager w1) tutorial_id (Some sender_id)) (n1, w1)
                  else (n1, w1))
           in (n2 > 0, w2)))"

subsection \<open>The session timer\<close>

text \<open>
  \<open>_chat_session_timer\<close> runs in its own thread; the other threads run while
  it sleeps.  \<open>sleep1\<close> and \<open>sleep2\<close> are what they do to the state during
  its first and its second \<open>time.sleep\<close>.  The timer returns the trace of
  what it did, each entry with the seconds it had slept by then.
\<close>

datatype timer_event = Warning_sent | Chat_ended_by_timer | Ended_before_warning | Already_ended

definition timer_end_chat ::
  "network \<Rightarrow> string \<Rightarrow> int \<Rightarrow> server \<Rightarrow> (int \<times> timer_event) list \<times> server" where
  "timer_end_chat net tutorial_id slept w =
     (if get_active_chat (db w) tutorial_id \<noteq> None then
        (let w1 = w\<lparr>db := snd (end_chat tutorial_id (db w))\<rparr>;
             w2 = send_each net (get_chat_sockets (chat_manager w1) tutorial_id None)
                    ''CHAT_ENDED'' w1
         in ([(slept, Chat_ended_by_timer)],
             w2\<lparr>chat_manager := snd (close_room tutorial_id (chat_manager w2))\<rparr>))
      else ([(slept, Already_ended)], w))"

definition chat_session_timer ::
  "network \<Rightarrow> (server \<Rightarrow> server) \<Rightarrow> (server \<Rightarrow> server) \<Rightarrow> string \<Rightarrow> int \<Rightarrow> server
     \<Rightarrow> (int \<times> timer_event) list \<times> server" where
  "chat_session_timer net sleep1 sleep2 tutorial_id duration w =
     (let warning_time = duration - 5 in
      if warning_time > 0 then
        (let w1 = sleep1 w in
         if get_active_chat (db w1) tutorial_id \<noteq> None then
           (let w2 = send_each net (get_chat_sockets (chat_manager w1) tutorial_id None)
                       ''WARNING:5 minutes remaining'' w1;
                w3 = sleep2 w2;
                (tr, w4) = timer_end_chat net tutorial_id (warning_time * 60 + 5 * 60) w3
            in ((warning_time * 60, Warning_sent) # tr, w4))
         else ([(warning_time * 60, Ended_before_warning)], w1))
      else timer_end_chat net tutorial_id (duration * 60) (sleep1 w))"

subsection \<open>The tutor's command loop\<close>

text \<open>
  \<open>receive_data\<close> returns a status and, with \<open>SOCK_STATUS_OK\<close>, the data
  decoded by \<open>buffer.raw[:n].decode()\<close>; on bytes that are not valid UTF-8
  the decoding raises \<open>UnicodeDecodeError\<close> (\<open>Recv_undecodable\<close>), and the
  call in \<open>handle_tutor\<close> is outside its \<open>try\<close>, so the exception leaves the
  loop (\<open>Loop_raised\<close>).  The loop reads the list of what the connection
  delivers, one entry for each call; when the list is used up the loop is
  still blocked in \<open>receive_data\<close> (\<open>Serving\<close>), and \<open>Loop_ended\<close> is the
  \<open>break\<close>.  The ten handlers are the parameter \<open>run\<close>: a handler returns,
  or raises an exception and is \<open>Raised\<close> with it and the state it left.
  \<open>str_e\<close> is Python's \<open>str(e)\<close>, the text the driver or the interpreter
  gave the exception.  \<open>tutor_command_step\<close> is the body of the loop from the
  \<open>split\<close> on.
\<close>

datatype recv_result = Recv_ok string | Recv_undecodable | Recv_timeout | Recv_closed | Recv_error










text \<open>
  The entry of a user in a room, \<open>rooms[tutorial_id]["users"].get(user_id)\<close>
  without creating the room.
\<close>

definition user_entry :: "rooms \<Rightarrow> string \<Rightarrow> string \<Rightarrow> user_sockets option" where
  "user_entry rs tutorial_id uid =
     (case map_of rs tutorial_id of None \<Rightarrow> None | Some r \<Rightarrow> map_of (users r) uid)"

section \<open>Invariants and concrete states\<close>

text \<open>
  The registry is well formed when \<open>active_sessions\<close> has one entry per key
  and every session is stored under its own \<open>user_id\<close>.  \<open>sessions_of\<close> lists
  the sessions of a user, as the scan of \<open>user_has_active_session\<close> meets them.
\<close>

definition registry_ok :: "session_manager \<Rightarrow> bool" where
  "registry_ok sm = (distinct (map fst (active_sessions sm)) \<and>
      list_all (\<lambda>(k, s). user_id s = k) (active_sessions sm))"

definition sessions_of :: "session_manager \<Rightarrow> string \<Rightarrow> session list" where
  "sessions_of sm uid = filter (\<lambda>s. user_id s = uid) (map snd (active_sessions sm))"

definition registry_u1 :: session_manager where
  "registry_u1 =
     snd (create_session ''tok1'' 0 ''u1'' ''student'' ''Ann'' (Some 7) new_session_manager)"

definition db0 :: database where
  "db0 = \<lparr>users_tbl =
            [(''u1'', \<lparr>u_name = ''Ann'', password_hash = ''h1'', u_role = ''student'',
                      profile_pic = Some ''p1''\<rparr>),
             (''u2'', \<lparr>u_name = ''Bob'', password_hash = ''h2'', u_role = ''student'',
                      profile_pic = Some ''p2''\<rparr>),
             (''t1'', \<lparr>u_name = ''Tom'', password_hash = ''h3'', u_role = ''tutor'',
                      profile_pic = None\<rparr>)],
          tutorials_tbl = [(''T1'', ''Logic'')],
          assignments_tbl = [(''u1'', ''T1''), (''u2'', ''T1''), (''t1'', ''T1'')],
          active_chats_tbl = [],
          attendance_tbl = []\<rparr>"

definition db_c1 :: database where
  "db_c1 = initialize_attendance_for_session ''c1'' ''T1'' db0"

definition server0 :: server where
  "server0 = \<lparr>session_manager = new_session_manager, chat_manager = [], db = db0,
              sent = [], closed = [], timers = []\<rparr>"

definition server_u1 :: server where
  "server_u1 = server0\<lparr>session_manager := registry_u1\<rparr>"

definition all_ok :: network where
  "all_ok n h = SOCK_STATUS_OK"

definition server_chat1 :: server where
  "server_chat1 =
     (case handle_start_chat all_ok 0 ''c1'' 5 [''tok1'', ''START_CHAT'', ''T1'', ''10''] ''t1'' server0 of
        Returned w \<Rightarrow> w | Raised e w \<Rightarrow> w)"

definition registry_t1 :: session_manager where
  "registry_t1 =
     snd (create_session ''tok1'' 0 ''t1'' ''tutor'' ''Tom'' (Some 5) new_session_manager)"

definition rooms_t1_u1_u2 :: rooms where
  "rooms_t1_u1_u2 =
     [(''T1'', \<lparr>users = [(''t1'', \<lparr>primary = Some 5, chat = Some 6\<rparr>),
                         (''u1'', \<lparr>primary = Some 7, chat = None\<rparr>),
                         (''u2'', \<lparr>primary = Some 8, chat = Some 9\<rparr>)],
               messages = []\<rparr>)]"

definition server_room :: server where
  "server_room = \<lparr>session_manager = registry_t1, chat_manager = rooms_t1_u1_u2, db = db0,
                  sent = [], closed = [], timers = []\<rparr>"

definition all_closed :: network where
  "all_closed n h = SOCK_STATUS_CLOSED"




definition sleep_restart :: "server \<Rightarrow> server" where
  "sleep_restart w =
     (case handle_start_chat all_ok 240 ''c2'' 5 [''tok1'', ''START_CHAT'', ''T1'', ''60''] ''t1''
             (handle_end_chat all_ok 5 [''tok1'', ''END_CHAT'', ''T1''] w) of
        Returned w1 \<Rightarrow> w1\<lparr>chat_manager := add_socket ''T1'' ''t1'' 6 True (chat_manager w1)\<rparr>
      | Raised e w1 \<Rightarrow> w1)"

definition server_primary_only :: server where
  "server_primary_only =
     server_room\<lparr>chat_manager :=
        [(''T1'', \<lparr>users = [(''t1'', \<lparr>primary = Some 5, chat = Some 6\<rparr>),
                            (''u1'', \<lparr>primary = Some 7, chat = None\<rparr>)],
                  messages = []\<rparr>)]\<rparr>"

section \<open>The Session Registry\<close>

lemma list_all_update:
  "list_all P al \<Longrightarrow> P (k, v) \<Longrightarrow> list_all P (AList.update k v al)"
  by (induction al) auto

lemma list_all_delete:
  "list_all P al \<Longrightarrow> list_all P (AList.delete k al)"
  by (induction al) auto

lemma registry_ok_new: "registry_ok new_session_manager"
  by (simp add: registry_ok_def new_session_manager_def)

lemma registry_ok_create:
  "registry_ok sm \<Longrightarrow> registry_ok (snd (create_session sid now uid rl nm sock sm))"
  by (simp add: registry_ok_def create_session_def Let_def distinct_update list_all_update)

lemma registry_ok_end:
  "registry_ok sm \<Longrightarrow> registry_ok (snd (end_session sid sm))"
  by (auto simp: registry_ok_def end_session_def Let_def distinct_delete list_all_delete
      split: option.splits)

lemma filter_key_le_1:
  "distinct (map fst al) \<Longrightarrow> length (filter (\<lambda>p. fst p = k) al) \<le> 1"
proof (induction al)
  case Nil
  then show ?case by simp
next
  case (Cons p al)
  have "filter (\<lambda>q. fst q = k) al = []" if "fst p = k"
  proof -
    from Cons.prems that have "k \<notin> fst ` set al" by auto
    then have "\<forall>q \<in> set al. fst q \<noteq> k" by auto
    then show ?thesis by (simp add: filter_empty_conv)
  qed
  with Cons show ?case by auto
qed

lemma sessions_of_le_1:
  assumes "registry_ok sm"
  shows "length (sessions_of sm uid) \<le> 1"
proof -
  have "filter (\<lambda>p. user_id (snd p) = uid) (active_sessions sm)
        = filter (\<lambda>p. fst p = uid) (active_sessions sm)"
    using assms by (intro filter_cong) (auto simp: registry_ok_def list_all_iff)
  moreover have "length (sessions_of sm uid)
        = length (filter (\<lambda>p. user_id (snd p) = uid) (active_sessions sm))"
    by (simp add: sessions_of_def filter_map comp_def)
  ultimately show ?thesis
    using filter_key_le_1[of "active_sessions sm" uid] assms by (simp add: registry_ok_def)
qed

lemma rejected_login:
  assumes "split_on CHR ''|'' (strip login_data) = [uid, pw]"
      and "user_has_active_session (session_manager w) uid"
  shows "\<exists>reply \<in> {''FAIL:User not found'', ''FAIL:Authentication error'',
                    ''FAIL:Incorrect password'', ''FAIL:Already logged in''}.
           handle_credential_auth checkpw serve net new_sid now sock login_data w
             = Returned (close_socket sock (snd (send_data net sock reply w)))"
  using assms
  by (auto simp: handle_credential_auth_def Let_def split: option.splits bool.splits)

lemma rejected_login_already:
  assumes "split_on CHR ''|'' (strip login_data) = [uid, pw]"
      and "user_has_active_session (session_manager w) uid"
      and "get_user (db w) uid = Some u" and "checkpw pw (password_hash u) = Some True"
  shows "handle_credential_auth checkpw serve net new_sid now sock login_data w
             = Returned (close_socket sock (snd (send_data net sock ''FAIL:Already logged in'' w)))"
  using assms
  by (auto simp: handle_credential_auth_def Let_def split: option.splits bool.splits)

lemma registry_unchanged_by_reply:
  "session_manager (close_socket sock (snd (send_data net sock reply w))) = session_manager w"
  by (simp add: close_socket_def send_data_def Let_def)

text \<open>
  C1 (as the claim states it, refuted).  \<open>create_session\<close> has no check: called
  for user \<open>u1\<close>, who has a live session in the registry, it returns a
  session with the new token and changes the registry.
\<close>

theorem create_session_for_live_user_succeeds:
  "user_has_active_session registry_u1 ''u1''
   \<and> session_id (fst (create_session ''tok2'' 1 ''u1'' ''student'' ''Ann'' (Some 8) registry_u1))
       = ''tok2''
   \<and> snd (create_session ''tok2'' 1 ''u1'' ''student'' ''Ann'' (Some 8) registry_u1)
       \<noteq> registry_u1"
  by (simp add: registry_u1_def create_session_def new_session_manager_def Let_def
       user_has_active_session_def truthy_socket_def)

text \<open>
  C1 (amended).  The check is in \<open>_handle_credential_auth\<close>: a credential
  login \<open>user_id|password\<close> for a user who has a live session is answered
  with one \<open>FAIL\<close> reply, the connection is closed and the registry is left
  as it was; when the user exists and the password matches the reply is
  \<open>FAIL:Already logged in\<close>.  \<open>create_session\<close> itself replaces the user's
  entry, so a well-formed registry stays well formed and holds exactly one
  session of that user after it, the one just made.
\<close>

theorem second_login_rejected_registry_unchanged:
  assumes "split_on CHR ''|'' (strip login_data) = [uid, pw]"
      and "user_has_active_session (session_manager w) uid"
      and "registry_ok (session_manager w)"
  shows "(\<exists>reply \<in> {''FAIL:User not found'', ''FAIL:Authentication error'',
                     ''FAIL:Incorrect password'', ''FAIL:Already logged in''}.
            handle_credential_auth checkpw serve net new_sid now sock login_data w
              = Returned (close_socket sock (snd (send_data net sock reply w)))
            \<and> session_manager (close_socket sock (snd (send_data net sock reply w)))
                = session_manager w)
         \<and> (\<forall>u. get_user (db w) uid = Some u \<and> checkpw pw (password_hash u) = Some True \<longrightarrow>
               handle_credential_auth checkpw serve net new_sid now sock login_data w
                 = Returned (close_socket sock
                     (snd (send_data net sock ''FAIL:Already logged in'' w))))
         \<and> length (sessions_of (session_manager w) uid) = 1
         \<and> registry_ok (snd (create_session sid' now' uid rl nm k (session_manager w)))
         \<and> length (sessions_of (snd (create_session sid' now' uid rl nm k (session_manager w))) uid) = 1
         \<and> sessions_of (snd (create_session sid' now' uid rl nm k (session_manager w))) uid
             = [fst (create_session sid' now' uid rl nm k (session_manager w))]"
proof -
  have a: "\<exists>reply \<in> {''FAIL:User not found'', ''FAIL:Authentication error'',
                     ''FAIL:Incorrect password'', ''FAIL:Already logged in''}.
            handle_credential_auth checkpw serve net new_sid now sock login_data w
              = Returned (close_socket sock (snd (send_data net sock reply w)))
            \<and> session_manager (close_socket sock (snd (send_data net sock reply w)))
                = session_manager w"
    using rejected_login[OF assms(1,2)] registry_unchanged_by_reply by fast
  have b: "\<forall>u. get_user (db w) uid = Some u \<and> checkpw pw (password_hash u) = Some True \<longrightarrow>
               handle_credential_auth checkpw serve net new_sid now sock login_data w
                 = Returned (close_socket sock
                     (snd (send_data net sock ''FAIL:Already logged in'' w)))"
    using rejected_login_already[OF assms(1,2)] by blast
  have "sessions_of (session_manager w) uid \<noteq> []"
    using assms(2)
    by (auto simp: user_has_active_session_def sessions_of_def list_ex_iff filter_empty_conv)
  with sessions_of_le_1[OF assms(3), of uid]
  have c: "length (sessions_of (session_manager w) uid) = 1"
    by (cases "sessions_of (session_manager w) uid") auto
  let ?sm = "snd (create_session sid' now' uid rl nm k (session_manager w))"
  have d: "registry_ok ?sm"
    by (rule registry_ok_create[OF assms(3)])
  have "map_of (active_sessions ?sm) uid \<noteq> None"
    by (simp add: create_session_def Let_def update_conv')
  then obtain s where "(uid, s) \<in> set (active_sessions ?sm)"
    by (auto dest: map_of_SomeD)
  moreover from this d have "user_id s = uid"
    by (auto simp: registry_ok_def list_all_iff)
  ultimately have "sessions_of ?sm uid \<noteq> []"
    by (force simp: sessions_of_def filter_empty_conv)
  with sessions_of_le_1[OF d, of uid]
  have e: "length (sessions_of ?sm uid) = 1"
    by (cases "sessions_of ?sm uid") auto
  let ?s = "fst (create_session sid' now' uid rl nm k (session_manager w))"
  have "map_of (active_sessions ?sm) uid = Some ?s"
    by (simp add: create_session_def Let_def update_conv')
  then have "(uid, ?s) \<in> set (active_sessions ?sm)"
    by (rule map_of_SomeD)
  moreover have "user_id ?s = uid"
    by (simp add: create_session_def Let_def)
  ultimately have "?s \<in> set (sessions_of ?sm uid)"
    by (force simp: sessions_of_def)
  with e have f: "sessions_of ?sm uid = [?s]"
    by (cases "sessions_of ?sm uid") auto
  from a b c d e f show ?thesis by blast
qed

theorem second_login_rejected_registry_unchanged_witness:
  "split_on CHR ''|'' (strip ''u1|secret'') = [''u1'', ''secret'']
   \<and> user_has_active_session (session_manager server_u1) ''u1''
   \<and> registry_ok (session_manager server_u1)
   \<and> handle_credential_auth (\<lambda>pw h. Some True) (\<lambda>r k u t w. Returned w) all_ok ''tok2'' 1 8
         ''u1|secret'' server_u1
       = Returned (server_u1\<lparr>sent := [(8, ''FAIL:Already logged in'', SOCK_STATUS_OK)],
                              closed := [8]\<rparr>)"
proof -
  have h1: "split_on CHR ''|'' (strip ''u1|secret'') = [''u1'', ''secret'']"
    by (simp add: strip_def py_isspace_def)
  have h2: "user_has_active_session (session_manager server_u1) ''u1''"
    by (simp add: server_u1_def server0_def registry_u1_def create_session_def
          new_session_manager_def user_has_active_session_def Let_def)
  have h3: "registry_ok (session_manager server_u1)"
    by (simp add: server_u1_def server0_def registry_u1_def create_session_def
          new_session_manager_def registry_ok_def Let_def)
  have u: "get_user (db server_u1) ''u1''
        = Some \<lparr>u_name = ''Ann'', password_hash = ''h1'', u_role = ''student'',
                 profile_pic = Some ''p1''\<rparr>"
    by (simp add: server_u1_def server0_def db0_def get_user_def)
  from second_login_rejected_registry_unchanged
         [OF h1 h2 h3, of "\<lambda>pw h. Some True" "\<lambda>r k u t w. Returned w" all_ok "''tok2''" 1 8] u
  have "handle_credential_auth (\<lambda>pw h. Some True) (\<lambda>r k u t w. Returned w) all_ok ''tok2'' 1 8
         ''u1|secret'' server_u1
       = Returned (close_socket 8 (snd (send_data all_ok 8 ''FAIL:Already logged in'' server_u1)))"
    by simp
  moreover have "close_socket 8 (snd (send_data all_ok 8 ''FAIL:Already logged in'' server_u1))
       = server_u1\<lparr>sent := [(8, ''FAIL:Already logged in'', SOCK_STATUS_OK)], closed := [8]\<rparr>"
    by (simp add: close_socket_def send_data_def all_ok_def server_u1_def server0_def Let_def)
  ultimately show ?thesis using h1 h2 h3 by simp
qed



section \<open>Attendance\<close>

lemma find_map_upd:
  assumes "\<And>r. Q (f r) = Q r"
  shows "find Q (map (\<lambda>r. if P r then f r else r) rows)
         = map_option (\<lambda>r. if P r then f r else r) (find Q rows)"
  using assms by (induction rows) auto

lemma filter_map_upd:
  assumes "\<And>r. Q (f r) = Q r"
  shows "filter Q (map (\<lambda>r. if P r then f r else r) rows)
         = map (\<lambda>r. if P r then f r else r) (filter Q rows)"
  using assms by (induction rows) auto

lemma find_append:
  "find P (xs @ ys) = (case find P xs of Some r \<Rightarrow> Some r | None \<Rightarrow> find P ys)"
  by (induction xs) auto

lemma attendance_record_update_rows:
  assumes "\<And>r. a_chat_session_id (f r) = a_chat_session_id r \<and> student_id (f r) = student_id r"
  shows "attendance_record (update_rows c s f d) cid sid
         = map_option (\<lambda>r. if row_of c s r then f r else r) (attendance_record d cid sid)"
  using assms by (simp add: attendance_record_def update_rows_def find_map_upd row_of_def)

lemma single_record_update_rows:
  assumes "\<And>r. a_chat_session_id (f r) = a_chat_session_id r \<and> student_id (f r) = student_id r"
  shows "single_record (update_rows c s f d) cid sid = single_record d cid sid"
  using assms by (simp add: single_record_def update_rows_def filter_map_upd row_of_def)

lemma attendance_record_append:
  "attendance_record d cid sid = Some r \<Longrightarrow>
   attendance_record (d\<lparr>attendance_tbl := attendance_tbl d @ xs\<rparr>) cid sid = Some r"
  by (simp add: attendance_record_def find_append)

lemma find_in_filter: "find P xs = Some r \<Longrightarrow> r \<in> set (filter P xs)"
  by (induction xs) (auto split: if_splits)

lemma find_conj_in_filter: "find (\<lambda>r. P r \<and> Q r) xs = Some r \<Longrightarrow> r \<in> set (filter P xs) \<and> Q r"
  by (induction xs) (auto split: if_splits)

lemma le1_same: "length xs \<le> 1 \<Longrightarrow> a \<in> set xs \<Longrightarrow> b \<in> set xs \<Longrightarrow> a = b"
  by (cases xs) auto

lemma py_int_of_float_nonneg: "0 \<le> x \<Longrightarrow> 0 \<le> py_int_of_float x"
  by (simp add: py_int_of_float_def)

lemma mark_present_record:
  assumes "attendance_record d cid sid = Some r"
  shows "\<exists>r'. attendance_record (apply_transition (Join now c t s) d) cid sid = Some r'
            \<and> total_duration_seconds r' = total_duration_seconds r"
proof (cases "find (row_of c s) (attendance_tbl d)")
  case None
  then show ?thesis using assms
    by (simp add: mark_student_present_def attendance_record_append)
next
  case (Some r0)
  then show ?thesis using assms
    by (simp add: mark_student_present_def Let_def attendance_record_update_rows)
qed

lemma mark_present_single:
  assumes "single_record d cid sid"
  shows "single_record (apply_transition (Join now c t s) d) cid sid"
proof (cases "find (row_of c s) (attendance_tbl d)")
  case None
  show ?thesis
  proof (cases "c = cid \<and> s = sid")
    case True
    with None have "filter (row_of cid sid) (attendance_tbl d) = []"
      by (simp add: find_None_iff filter_empty_conv)
    with None True show ?thesis
      by (simp add: mark_student_present_def single_record_def)
  next
    case False
    with None assms show ?thesis
      by (auto simp: mark_student_present_def single_record_def row_of_def)
  qed
next
  case (Some r0)
  then show ?thesis using assms
    by (simp add: mark_student_present_def Let_def single_record_update_rows)
qed

lemma disconnect_single:
  assumes "single_record d cid sid"
  shows "single_record (apply_transition (Leave now c s) d) cid sid"
  using assms
  by (simp add: disconnect_attendance_def Let_def single_record_update_rows
      split: option.splits)

lemma disconnect_record:
  assumes "attendance_record d cid sid = Some r" and "single_record d cid sid"
      and "clock_ok d (Leave now c s)"
  shows "\<exists>r'. attendance_record (apply_transition (Leave now c s) d) cid sid = Some r'
            \<and> total_duration_seconds r \<le> total_duration_seconds r'"
proof (cases "find (\<lambda>r. row_of c s r \<and> is_present r) (attendance_tbl d)")
  case None
  then show ?thesis using assms(1) by (simp add: disconnect_attendance_def)
next
  case (Some r0)
  show ?thesis
  proof (cases "row_of c s r")
    case False
    then show ?thesis using assms(1) Some
      by (simp add: disconnect_attendance_def Let_def attendance_record_update_rows)
  next
    case True
    have rin: "r \<in> set (filter (row_of cid sid) (attendance_tbl d))"
      using assms(1) unfolding attendance_record_def by (rule find_in_filter)
    then have rr: "row_of cid sid r" by simp
    with True have eq: "c = cid" "s = sid" by (auto simp: row_of_def)
    have "r0 \<in> set (filter (row_of cid sid) (attendance_tbl d))"
      using find_conj_in_filter[OF Some] eq by simp
    with rin have "r0 \<in> set (filter (row_of cid sid) (attendance_tbl d))
        \<and> r \<in> set (filter (row_of cid sid) (attendance_tbl d))" by simp
    then have "r0 = r"
      using assms(2) le1_same[of "filter (row_of cid sid) (attendance_tbl d)" r0 r]
      unfolding single_record_def by blast
    moreover have "last_seen_time r \<le> now"
      using assms(1,3) eq by (simp add: clock_ok_def)
    ultimately show ?thesis using assms(1) Some True py_int_of_float_nonneg[of "now - last_seen_time r"]
      by (simp add: disconnect_attendance_def Let_def attendance_record_update_rows)
  qed
qed

lemma step_record:
  assumes "attendance_record d cid sid = Some r" and "single_record d cid sid"
      and "clock_ok d tr"
  shows "\<exists>r'. attendance_record (apply_transition tr d) cid sid = Some r'
            \<and> total_duration_seconds r \<le> total_duration_seconds r'"
proof (cases tr)
  case (Join now c t s)
  then show ?thesis using mark_present_record[OF assms(1), of now c t s] by auto
next
  case (Leave now c s)
  then show ?thesis using disconnect_record[OF assms(1,2)] assms(3) by auto
qed

lemma step_single:
  "single_record d cid sid \<Longrightarrow> single_record (apply_transition tr d) cid sid"
  by (cases tr) (simp_all only: mark_present_single disconnect_single)

lemma run_single:
  "single_record d cid sid \<Longrightarrow> single_record (run_transitions trs d) cid sid"
  by (induction trs arbitrary: d) (simp_all add: step_single)

lemma run_append: "run_transitions (xs @ ys) d = run_transitions ys (run_transitions xs d)"
  by (induction xs arbitrary: d) simp_all

lemma clock_ok_run_append:
  "clock_ok_run d (xs @ ys) = (clock_ok_run d xs \<and> clock_ok_run (run_transitions xs d) ys)"
  by (induction xs arbitrary: d) auto

lemma run_record:
  assumes "attendance_record d cid sid = Some r" and "single_record d cid sid"
      and "clock_ok_run d trs"
  shows "\<exists>r'. attendance_record (run_transitions trs d) cid sid = Some r'
            \<and> total_duration_seconds r \<le> total_duration_seconds r'"
  using assms
proof (induction trs arbitrary: d r)
  case Nil
  then show ?case by simp
next
  case (Cons tr trs)
  from step_record[OF Cons.prems(1,2)] Cons.prems(3)
  obtain r1 where r1: "attendance_record (apply_transition tr d) cid sid = Some r1"
    "total_duration_seconds r \<le> total_duration_seconds r1" by auto
  from Cons.IH[OF r1(1) step_single[OF Cons.prems(2)]] Cons.prems(3)
  obtain r2 where "attendance_record (run_transitions trs (apply_transition tr d)) cid sid = Some r2"
    "total_duration_seconds r1 \<le> total_duration_seconds r2" by auto
  with r1 show ?case by auto
qed

text \<open>
  C3.  Along any run of \<open>mark_student_present\<close> and \<open>disconnect_attendance\<close>
  calls (for this pair or any other), where each call happens at a time not
  before the \<open>last_seen_time\<close> stored for the record it touches, the
  \<open>total_duration_seconds\<close> of the record of a pair never decreases: what it
  is after a prefix \<open>xs\<close> of the run is at most what it is after \<open>xs @ ys\<close>.
  The table holds one record per pair, as \<open>initialize_attendance_for_session\<close>
  and the lazy insert of \<open>mark_student_present\<close> leave it.
\<close>

theorem accumulated_duration_monotone:
  assumes "single_record d cid sid" and "clock_ok_run d (xs @ ys)"
      and "attendance_record (run_transitions xs d) cid sid = Some r1"
  shows "\<exists>r2. attendance_record (run_transitions (xs @ ys) d) cid sid = Some r2
            \<and> total_duration_seconds r1 \<le> total_duration_seconds r2"
  using run_record[OF assms(3) run_single[OF assms(1)]] assms(2)
  by (simp add: run_append clock_ok_run_append)

theorem accumulated_duration_monotone_witness:
  "single_record db_c1 ''c1'' ''u1''
   \<and> clock_ok_run db_c1 ([Join 100 ''c1'' ''T1'' ''u1'', Leave (321 / 2) ''c1'' ''u1'']
                         @ [Join 200 ''c1'' ''T1'' ''u1'', Leave 230 ''c1'' ''u1''])
   \<and> total_duration_seconds (the (attendance_record
         (run_transitions [Join 100 ''c1'' ''T1'' ''u1'', Leave (321 / 2) ''c1'' ''u1''] db_c1)
         ''c1'' ''u1'')) = 60
   \<and> (\<exists>r2. attendance_record
         (run_transitions ([Join 100 ''c1'' ''T1'' ''u1'', Leave (321 / 2) ''c1'' ''u1'']
                         @ [Join 200 ''c1'' ''T1'' ''u1'', Leave 230 ''c1'' ''u1'']) db_c1)
         ''c1'' ''u1'' = Some r2 \<and> 60 \<le> total_duration_seconds r2)"
proof -
  have h1: "single_record db_c1 ''c1'' ''u1''"
    by (simp add: db_c1_def db0_def initialize_attendance_for_session_def
          get_students_in_tutorial_def single_record_def row_of_def clock_ok_def
          attendance_record_def mark_student_present_def disconnect_attendance_def
          update_rows_def Let_def py_int_of_float_def)
  have h2: "clock_ok_run db_c1 ([Join 100 ''c1'' ''T1'' ''u1'', Leave (321 / 2) ''c1'' ''u1'']
                         @ [Join 200 ''c1'' ''T1'' ''u1'', Leave 230 ''c1'' ''u1''])"
    by (simp add: db_c1_def db0_def initialize_attendance_for_session_def
          get_students_in_tutorial_def single_record_def row_of_def clock_ok_def
          attendance_record_def mark_student_present_def disconnect_attendance_def
          update_rows_def Let_def py_int_of_float_def)
  have h3: "attendance_record
         (run_transitions [Join 100 ''c1'' ''T1'' ''u1'', Leave (321 / 2) ''c1'' ''u1''] db_c1)
         ''c1'' ''u1''
       = Some \<lparr>a_chat_session_id = ''c1'', a_tutorial_id = ''T1'', student_id = ''u1'',
               first_join_time = 100, last_seen_time = 321 / 2,
               total_duration_seconds = 60, is_present = False\<rparr>"
    by (simp add: db_c1_def db0_def initialize_attendance_for_session_def
          get_students_in_tutorial_def single_record_def row_of_def clock_ok_def
          attendance_record_def mark_student_present_def disconnect_attendance_def
          update_rows_def Let_def py_int_of_float_def)
  from accumulated_duration_monotone[OF h1 h2 h3] h1 h2 h3 show ?thesis by simp
qed


lemma find_present_map:
  assumes "\<And>r. P (f r) = P r" and "\<And>r. P r \<Longrightarrow> Q (f r)"
  shows "find (\<lambda>r. P r \<and> Q r) (map (\<lambda>r. if P r then f r else r) rows) = map_option f (find P rows)"
  using assms by (induction rows) auto

lemma first_present_update_rows_present:
  assumes "\<And>r. a_chat_session_id (f r) = a_chat_session_id r \<and> student_id (f r) = student_id r"
      and "\<And>r. is_present (f r)"
  shows "first_present (update_rows cid sid f d) cid sid = map_option f (attendance_record d cid sid)"
proof -
  have "\<And>r. row_of cid sid (f r) = row_of cid sid r"
    using assms(1) by (simp add: row_of_def)
  then show ?thesis
    unfolding first_present_def update_rows_def attendance_record_def
    using assms(2) by (simp add: find_present_map)
qed

lemma first_present_update_rows_keep:
  assumes "\<And>r. a_chat_session_id (f r) = a_chat_session_id r \<and> student_id (f r) = student_id r"
      and "\<And>r. is_present (f r) = is_present r"
  shows "first_present (update_rows c s f d) cid sid
       = map_option (\<lambda>r. if row_of c s r then f r else r) (first_present d cid sid)"
  unfolding first_present_def update_rows_def
  using assms by (simp add: find_map_upd row_of_def)

lemma row_of_field_updates:
  "row_of c s (r\<lparr>is_present := a\<rparr>) = row_of c s r"
  "row_of c s (r\<lparr>last_seen_time := t\<rparr>) = row_of c s r"
  "row_of c s (r\<lparr>first_join_time := t\<rparr>) = row_of c s r"
  "row_of c s (r\<lparr>total_duration_seconds := n\<rparr>) = row_of c s r"
  by (simp_all add: row_of_def)

lemma first_join:
  assumes "attendance_record d cid sid = None \<longrightarrow>
             map_of (users_tbl d) sid \<noteq> None \<and> map_of (tutorials_tbl d) tid \<noteq> None"
      and "\<forall>r. attendance_record d cid sid = Some r \<longrightarrow>
             \<not> is_present r \<and> first_join_time r = 0 \<and> total_duration_seconds r = 0"
  shows "\<exists>r1. attendance_record (apply_transition (Join t1 cid tid sid) d) cid sid = Some r1
            \<and> first_present (apply_transition (Join t1 cid tid sid) d) cid sid = Some r1
            \<and> is_present r1 \<and> total_duration_seconds r1 = 0
            \<and> first_join_time r1 = t1 \<and> last_seen_time r1 = t1"
proof (cases "attendance_record d cid sid")
  case None
  then have n: "find (row_of cid sid) (attendance_tbl d) = None"
    by (simp add: attendance_record_def)
  then have "find (\<lambda>r. row_of cid sid r \<and> is_present r) (attendance_tbl d) = None"
    by (auto simp: find_None_iff)
  with n None assms(1) show ?thesis
    by (auto simp: mark_student_present_def attendance_record_def first_present_def find_append row_of_def)
next
  case (Some r)
  then have n: "find (row_of cid sid) (attendance_tbl d) = Some r"
    by (simp add: attendance_record_def)
  have rr: "row_of cid sid r"
    using find_in_filter[OF n] by simp
  from Some assms(2) n rr show ?thesis
    by (simp add: mark_student_present_def Let_def attendance_record_update_rows
          first_present_update_rows_keep first_present_update_rows_present row_of_field_updates)
qed

lemma leave_after:
  assumes "attendance_record d cid sid = Some r1" and "first_present d cid sid = Some r1"
  shows "attendance_record (disconnect_attendance t2 cid sid d) cid sid
         = Some (r1\<lparr>is_present := False,
                    total_duration_seconds := total_duration_seconds r1
                       + py_int_of_float (t2 - last_seen_time r1),
                    last_seen_time := t2\<rparr>)"
proof -
  have rin: "r1 \<in> set (filter (row_of cid sid) (attendance_tbl d))"
    using assms(1) unfolding attendance_record_def by (rule find_in_filter)
  then have rr: "row_of cid sid r1" by simp
  with assms show ?thesis
    by (simp add: disconnect_attendance_def first_present_def Let_def attendance_record_update_rows)
qed

lemma rejoin:
  assumes "attendance_record d cid sid = Some r2" and "\<not> is_present r2" and "first_join_time r2 \<noteq> 0"
  shows "attendance_record (apply_transition (Join t3 cid tid sid) d) cid sid
         = Some (r2\<lparr>is_present := True, last_seen_time := t3\<rparr>)"
proof -
  have rin: "r2 \<in> set (filter (row_of cid sid) (attendance_tbl d))"
    using assms(1) unfolding attendance_record_def by (rule find_in_filter)
  then have rr: "row_of cid sid r2" by simp
  have n: "find (row_of cid sid) (attendance_tbl d) = Some r2"
    using assms(1) by (simp add: attendance_record_def)
  from n rr assms show ?thesis
    by (simp add: mark_student_present_def Let_def attendance_record_update_rows)
qed

text \<open>
  C4.  A student whose record for the chat session is absent or as
  \<open>initialize_attendance_for_session\<close> made it joins at \<open>t1\<close>, leaves at
  \<open>t2\<close> (\<open>LEAVE_CHAT\<close> calls \<open>disconnect_attendance\<close>) and joins again at
  \<open>t3\<close>.  The record is then present, its \<open>total_duration_seconds\<close> is the
  whole seconds of the first visit, \<open>int(t2 - t1)\<close>, and \<open>first_join_time\<close>
  is still \<open>t1\<close>.  The time of the first join is not the \<open>0\<close> that the
  table uses for "never joined".
\<close>

theorem rejoin_keeps_accumulated_duration:
  assumes "attendance_record d cid sid = None \<longrightarrow>
             map_of (users_tbl d) sid \<noteq> None \<and> map_of (tutorials_tbl d) tid \<noteq> None"
      and "\<forall>r. attendance_record d cid sid = Some r \<longrightarrow>
             \<not> is_present r \<and> first_join_time r = 0 \<and> total_duration_seconds r = 0"
      and "t1 \<noteq> 0"
  shows "\<exists>r3. attendance_record
                (run_transitions [Join t1 cid tid sid, Leave t2 cid sid, Join t3 cid tid sid] d)
                cid sid = Some r3
            \<and> is_present r3
            \<and> total_duration_seconds r3 = py_int_of_float (t2 - t1)
            \<and> first_join_time r3 = t1
            \<and> last_seen_time r3 = t3"
proof -
  let ?d1 = "apply_transition (Join t1 cid tid sid) d"
  from first_join[OF assms(1,2), of t1]
  obtain r1 where r1: "attendance_record ?d1 cid sid = Some r1"
      "first_present ?d1 cid sid = Some r1" "is_present r1" "total_duration_seconds r1 = 0"
      "first_join_time r1 = t1" "last_seen_time r1 = t1"
    by blast
  let ?d2 = "disconnect_attendance t2 cid sid ?d1"
  let ?r2 = "r1\<lparr>is_present := False,
                    total_duration_seconds := total_duration_seconds r1
                       + py_int_of_float (t2 - last_seen_time r1),
                    last_seen_time := t2\<rparr>"
  have r2: "attendance_record ?d2 cid sid = Some ?r2"
    by (rule leave_after[OF r1(1,2)])
  have "attendance_record (apply_transition (Join t3 cid tid sid) ?d2) cid sid
         = Some (?r2\<lparr>is_present := True, last_seen_time := t3\<rparr>)"
    by (rule rejoin[OF r2]) (simp_all add: r1 assms(3))
  then show ?thesis using r1 by simp
qed


theorem rejoin_keeps_accumulated_duration_witness:
  "(attendance_record db_c1 ''c1'' ''u1''
     = Some \<lparr>a_chat_session_id = ''c1'', a_tutorial_id = ''T1'', student_id = ''u1'',
              first_join_time = 0, last_seen_time = 0,
              total_duration_seconds = 0, is_present = False\<rparr>
   \<and> (100::real) \<noteq> 0
   \<and> (\<exists>r3. attendance_record
          (run_transitions [Join 100 ''c1'' ''T1'' ''u1'', Leave (321 / 2) ''c1'' ''u1'',
                            Join 200 ''c1'' ''T1'' ''u1''] db_c1) ''c1'' ''u1'' = Some r3
        \<and> is_present r3 \<and> total_duration_seconds r3 = 60 \<and> first_join_time r3 = 100
        \<and> last_seen_time r3 = 200))
   \<and> (attendance_record db0 ''c1'' ''u1'' = None
   \<and> map_of (users_tbl db0) ''u1'' \<noteq> None \<and> map_of (tutorials_tbl db0) ''T1'' \<noteq> None
   \<and> (\<exists>r3. attendance_record
          (run_transitions [Join 100 ''c1'' ''T1'' ''u1'', Leave (321 / 2) ''c1'' ''u1'',
                            Join 200 ''c1'' ''T1'' ''u1''] db0) ''c1'' ''u1'' = Some r3
        \<and> is_present r3 \<and> total_duration_seconds r3 = 60 \<and> first_join_time r3 = 100
        \<and> last_seen_time r3 = 200))"
proof -
  have r: "attendance_record db_c1 ''c1'' ''u1''
        = Some \<lparr>a_chat_session_id = ''c1'', a_tutorial_id = ''T1'', student_id = ''u1'',
                 first_join_time = 0, last_seen_time = 0,
                 total_duration_seconds = 0, is_present = False\<rparr>"
    by (simp add: db_c1_def db0_def initialize_attendance_for_session_def
          get_students_in_tutorial_def attendance_record_def row_of_def)
  have h1: "attendance_record db_c1 ''c1'' ''u1'' = None \<longrightarrow>
      map_of (users_tbl db_c1) ''u1'' \<noteq> None \<and> map_of (tutorials_tbl db_c1) ''T1'' \<noteq> None"
    by (simp add: r)
  have h2: "\<forall>r. attendance_record db_c1 ''c1'' ''u1'' = Some r \<longrightarrow>
          \<not> is_present r \<and> first_join_time r = 0 \<and> total_duration_seconds r = 0"
    by (simp add: r)
  have h3: "(100::real) \<noteq> 0" by simp
  have "py_int_of_float (321 / 2 - 100) = 60"
    by (simp add: py_int_of_float_def)
  with rejoin_keeps_accumulated_duration[OF h1 h2 h3, of "321 / 2" 200] r
  have part1: "attendance_record db_c1 ''c1'' ''u1''
     = Some \<lparr>a_chat_session_id = ''c1'', a_tutorial_id = ''T1'', student_id = ''u1'',
              first_join_time = 0, last_seen_time = 0,
              total_duration_seconds = 0, is_present = False\<rparr>
   \<and> (100::real) \<noteq> 0
   \<and> (\<exists>r3. attendance_record
          (run_transitions [Join 100 ''c1'' ''T1'' ''u1'', Leave (321 / 2) ''c1'' ''u1'',
                            Join 200 ''c1'' ''T1'' ''u1''] db_c1) ''c1'' ''u1'' = Some r3
        \<and> is_present r3 \<and> total_duration_seconds r3 = 60 \<and> first_join_time r3 = 100
        \<and> last_seen_time r3 = 200)"
    by simp

  have nr: "attendance_record db0 ''c1'' ''u1'' = None"
    by (simp add: db0_def attendance_record_def)
  have nu: "map_of (users_tbl db0) ''u1'' \<noteq> None \<and> map_of (tutorials_tbl db0) ''T1'' \<noteq> None"
    by (simp add: db0_def)
  have nh1: "attendance_record db0 ''c1'' ''u1'' = None \<longrightarrow>
      map_of (users_tbl db0) ''u1'' \<noteq> None \<and> map_of (tutorials_tbl db0) ''T1'' \<noteq> None"
    using nu by simp
  have nh2: "\<forall>r. attendance_record db0 ''c1'' ''u1'' = Some r \<longrightarrow>
          \<not> is_present r \<and> first_join_time r = 0 \<and> total_duration_seconds r = 0"
    by (simp add: nr)
  have nh3: "(100::real) \<noteq> 0" by simp
  have "py_int_of_float (321 / 2 - 100) = 60"
    by (simp add: py_int_of_float_def)
  with rejoin_keeps_accumulated_duration[OF nh1 nh2 h3, of "321 / 2" 200] nr nu
  have part2: "attendance_record db0 ''c1'' ''u1'' = None
   \<and> map_of (users_tbl db0) ''u1'' \<noteq> None \<and> map_of (tutorials_tbl db0) ''T1'' \<noteq> None
   \<and> (\<exists>r3. attendance_record
          (run_transitions [Join 100 ''c1'' ''T1'' ''u1'', Leave (321 / 2) ''c1'' ''u1'',
                            Join 200 ''c1'' ''T1'' ''u1''] db0) ''c1'' ''u1'' = Some r3
        \<and> is_present r3 \<and> total_duration_seconds r3 = 60 \<and> first_join_time r3 = 100
        \<and> last_seen_time r3 = 200)"
    by simp
  from part1 part2 show ?thesis by blast
qed

section \<open>Starting a chat\<close>

lemma server_chat1_eq:
  "server_chat1 = \<lparr>session_manager = new_session_manager,
      chat_manager = [(''T1'', \<lparr>users = [(''t1'', \<lparr>primary = Some 5, chat = None\<rparr>)], messages = []\<rparr>)],
      db = db0\<lparr>active_chats_tbl := [(''T1'', \<lparr>tutor_id = ''t1'', start_time = 0, end_time = 600,
                                              chat_session_id = ''c1''\<rparr>)],
               attendance_tbl :=
                 [\<lparr>a_chat_session_id = ''c1'', a_tutorial_id = ''T1'', student_id = ''u1'',
                   first_join_time = 0, last_seen_time = 0, total_duration_seconds = 0,
                   is_present = False\<rparr>,
                  \<lparr>a_chat_session_id = ''c1'', a_tutorial_id = ''T1'', student_id = ''u2'',
                   first_join_time = 0, last_seen_time = 0, total_duration_seconds = 0,
                   is_present = False\<rparr>]\<rparr>,
      sent = [(5, ''CHAT_STARTED:c1'', SOCK_STATUS_OK)], closed = [], timers = [(''T1'', 10)]\<rparr>"
  by (simp add: server_chat1_def handle_start_chat_def py_int_def int_strip_def py_int_isspace_def strip_def py_isspace_def
        digits_value_def is_digit_def start_chat_def get_active_chat_def server0_def db0_def
        truthy_str_def add_socket_def initialize_attendance_for_session_def
        get_students_in_tutorial_def send_data_def all_ok_def Let_def)

lemma py_int_refuses_separators:
  "py_int [CHR 0x1C, CHR ''1'', CHR ''0''] = None
   \<and> py_int [CHR ''1'', CHR ''0'', CHR 0x1F] = None
   \<and> py_int [CHR 0xA0, CHR ''1'', CHR ''0'', CHR 0x85] = Some 10"
  by (simp add: py_int_def int_strip_def py_int_isspace_def digits_value_def is_digit_def)

lemma start_chat_separator_in_duration:
  "handle_start_chat all_ok 42 ''c2'' 5
     [''tok1'', ''START_CHAT'', ''T1'', [CHR 0x1C, CHR ''1'', CHR ''0'']] ''t1'' server_chat1
   = Returned (server_chat1\<lparr>sent := [(5, ''CHAT_STARTED:c1'', SOCK_STATUS_OK),
                                       (5, ''FAIL:Invalid duration format'', SOCK_STATUS_OK)]\<rparr>)"
  by (simp add: handle_start_chat_def py_int_def int_strip_def py_int_isspace_def
        digits_value_def is_digit_def send_data_def all_ok_def Let_def)
     (simp add: server_chat1_eq)

text \<open>
  C2.  A \<open>START_CHAT|tutorial|minutes\<close> command (four parts at least, the
  duration a text that \<open>int\<close> accepts) for a tutorial that has an active chat is answered
  with \<open>FAIL:Chat session already active\<close> and changes nothing but the log
  of replies: \<open>start_chat\<close> returns \<open>None\<close> with the tables as they were, so
  no second row of \<open>active_chats\<close>, no attendance row, no timer and no
  socket in the room.  \<open>active_chats\<close> is keyed by the tutorial id.
\<close>

theorem second_start_chat_rejected:
  assumes "4 \<le> length parts" and "py_int (parts ! 3) = Some duration"
      and "get_active_chat (db w) (parts ! 2) \<noteq> None"
  shows "handle_start_chat net now new_id client_socket parts tutor w
         = Returned (w\<lparr>sent := sent w @ [(client_socket, ''FAIL:Chat session already active'',
                                          net (length (sent w)) client_socket)]\<rparr>)
       \<and> start_chat now new_id (parts ! 2) tutor duration (db w) = Inr (None, db w)"
  using assms
  by (simp add: handle_start_chat_def start_chat_def send_data_def Let_def truthy_str_def)

theorem second_start_chat_rejected_witness:
  "4 \<le> length [''tok1'', ''START_CHAT'', ''T1'', ''10'']
   \<and> py_int ([''tok1'', ''START_CHAT'', ''T1'', ''10''] ! 3) = Some 10
   \<and> get_active_chat (db server_chat1) ([''tok1'', ''START_CHAT'', ''T1'', ''10''] ! 2) \<noteq> None
   \<and> handle_start_chat all_ok 42 ''c2'' 5 [''tok1'', ''START_CHAT'', ''T1'', ''10''] ''t1'' server_chat1
       = Returned (server_chat1\<lparr>sent := [(5, ''CHAT_STARTED:c1'', SOCK_STATUS_OK),
                                          (5, ''FAIL:Chat session already active'', SOCK_STATUS_OK)]\<rparr>)"
proof -
  have h1: "4 \<le> length [''tok1'', ''START_CHAT'', ''T1'', ''10'']" by simp
  have h2: "py_int ([''tok1'', ''START_CHAT'', ''T1'', ''10''] ! 3) = Some 10"
    by (simp add: py_int_def int_strip_def py_int_isspace_def digits_value_def is_digit_def)
  have h3: "get_active_chat (db server_chat1) ([''tok1'', ''START_CHAT'', ''T1'', ''10''] ! 2) \<noteq> None"
    by (simp add: server_chat1_eq get_active_chat_def)
  have s: "sent server_chat1 = [(5, ''CHAT_STARTED:c1'', SOCK_STATUS_OK)]"
    by (simp add: server_chat1_eq)
  from second_start_chat_rejected[OF h1 h2 h3, of all_ok 42 "''c2''" 5 "''t1''"] h1 h2 h3 s
  show ?thesis by (simp add: all_ok_def)
qed


section \<open>The Room Directory\<close>

lemma is_active_remove_dead_socket:
  "is_active (remove_dead_socket tid k rs) t = is_active rs t"
  by (simp add: is_active_def remove_dead_socket_def update_conv' split: option.splits)

lemma is_active_after_attach_detach:
  "is_active (remove_dead_socket tid s (add_socket tid uid s c rs)) tid"
  by (simp add: is_active_remove_dead_socket)
     (simp add: is_active_def add_socket_def Let_def update_conv')

lemma attach_remove_user_new_room:
  assumes "map_of rs tid = None"
  shows "\<not> is_active (snd (remove_user tid uid (add_socket tid uid s c rs))) tid"
  using assms
  by (simp add: is_active_def remove_user_def add_socket_def Let_def update_conv' delete_update_same)

lemma attach_remove_user_roundtrip:
  assumes "map_of rs tid = Some r" and "map_of (users r) uid = None"
  shows "remove_user tid uid (add_socket tid uid s c rs) = (True, rs)"
proof -
  have "uid \<notin> fst ` set (users r)"
    using assms(2) by (simp add: map_of_eq_None_iff)
  then have "AList.delete uid (users r) = users r" by simp
  then show ?thesis using assms
    by (simp add: remove_user_def add_socket_def Let_def update_conv' delete_update_same update_triv)
qed

text \<open>
  C7 (as the claim states it, refuted).  A socket is attached for \<open>u1\<close> in a
  room that did not exist and then detached with \<open>remove_dead_socket\<close>: the
  entry of \<open>u1\<close> is still there with both slots \<open>None\<close>, and \<open>is_active\<close>,
  false before, is true.
\<close>

theorem detached_user_keeps_entry:
  "\<not> is_active [] ''T1''
   \<and> is_active (remove_dead_socket ''T1'' 7 (add_socket ''T1'' ''u1'' 7 False [])) ''T1''
   \<and> remove_dead_socket ''T1'' 7 (add_socket ''T1'' ''u1'' 7 False [])
       = [(''T1'', \<lparr>users = [(''u1'', \<lparr>primary = None, chat = None\<rparr>)], messages = []\<rparr>)]"
  by (simp add: is_active_def remove_dead_socket_def add_socket_def clear_socket_def Let_def)

lemma map_fst_slots: "map fst (map (\<lambda>(u, us). (u, f us)) xs) = map fst xs"
  by (induction xs) auto

lemma map_of_slots: "map_of (map (\<lambda>(u, us). (u, f us)) xs) u = map_option f (map_of xs u)"
  by (induction xs) auto

lemma user_entry_remove_dead_socket:
  "user_entry (remove_dead_socket tid k rs) t u
   = map_option (\<lambda>us. if t = tid then clear_socket k us else us) (user_entry rs t u)"
proof (cases "map_of rs tid")
  case None
  then show ?thesis
    by (cases "t = tid") (simp_all add: user_entry_def remove_dead_socket_def option.map_ident)
next
  case (Some r)
  then show ?thesis
    by (cases "t = tid")
       (simp_all add: user_entry_def remove_dead_socket_def update_conv' map_of_slots
          option.map_ident)
qed

lemma user_ids_remove_dead_socket:
  "map_option (\<lambda>r. map fst (users r)) (map_of (remove_dead_socket tid k rs) t)
   = map_option (\<lambda>r. map fst (users r)) (map_of rs t)"
  by (cases "map_of rs tid")
     (auto simp: remove_dead_socket_def update_conv' map_fst_slots)

lemma user_entry_add_socket:
  "user_entry (add_socket tid uid s c rs) t u
   = (if t = tid \<and> u = uid
      then Some (if c
                 then (case user_entry rs tid uid of
                         None \<Rightarrow> \<lparr>primary = None, chat = None\<rparr> | Some us \<Rightarrow> us)\<lparr>chat := Some s\<rparr>
                 else (case user_entry rs tid uid of
                         None \<Rightarrow> \<lparr>primary = None, chat = None\<rparr> | Some us \<Rightarrow> us)\<lparr>primary := Some s\<rparr>)
      else user_entry rs t u)"
  by (auto simp: user_entry_def add_socket_def Let_def update_conv' split: option.splits)

lemma user_entry_remove_user:
  "user_entry (snd (remove_user tid uid rs)) t u
   = (if t = tid \<and> u = uid then None else user_entry rs t u)"
  by (auto simp: user_entry_def remove_user_def update_conv' delete_conv' split: option.splits)

lemma user_entry_close_room:
  "user_entry (snd (close_room tid rs)) t u = (if t = tid then None else user_entry rs t u)"
  by (auto simp: user_entry_def close_room_def delete_conv' split: option.splits)

lemma entry_after_attach_detach:
  "\<exists>us. user_entry (remove_dead_socket tid s (add_socket tid uid s c rs)) tid uid = Some us
        \<and> (if c then chat us else primary us) = None"
  by (simp add: user_entry_remove_dead_socket user_entry_add_socket clear_socket_def Let_def)

text \<open>
  C7 (amended).  \<open>remove_dead_socket\<close> sets the slots that hold the socket
  to \<open>None\<close> and removes no user entry: every entry of every room is there
  afterwards, changed by \<open>clear_socket\<close> in the room named and untouched
  elsewhere, each room lists the same user ids in the same order, and
  \<open>is_active\<close> is what it was.  So after a socket is attached for a user
  and detached again the user still has an entry, with that slot \<open>None\<close>,
  and \<open>is_active\<close> is true.  \<open>add_socket\<close> changes the entry of its user
  only.  An entry is deleted by \<open>remove_user\<close>, which deletes that user's
  entry and no other, and by \<open>close_room\<close>, which deletes the room with
  all its entries.  Attaching a socket for a user who had no entry and then
  removing the user gives back the very rooms there were when the room
  existed, and a room that is not active when it did not.
\<close>

theorem entry_removed_by_remove_user_only:
  "user_entry (remove_dead_socket tid' k rs) t u
     = map_option (\<lambda>us. if t = tid' then clear_socket k us else us) (user_entry rs t u)
   \<and> map_option (\<lambda>r. map fst (users r)) (map_of (remove_dead_socket tid' k rs) t)
     = map_option (\<lambda>r. map fst (users r)) (map_of rs t)
   \<and> is_active (remove_dead_socket tid' k rs) t = is_active rs t
   \<and> is_active (remove_dead_socket tid s (add_socket tid uid s c rs)) tid
   \<and> (\<exists>us. user_entry (remove_dead_socket tid s (add_socket tid uid s c rs)) tid uid = Some us
          \<and> (if c then chat us else primary us) = None)
   \<and> user_entry (add_socket tid uid s c rs) t u
     = (if t = tid \<and> u = uid
        then Some (if c
                   then (case user_entry rs tid uid of
                           None \<Rightarrow> \<lparr>primary = None, chat = None\<rparr> | Some us \<Rightarrow> us)\<lparr>chat := Some s\<rparr>
                   else (case user_entry rs tid uid of
                           None \<Rightarrow> \<lparr>primary = None, chat = None\<rparr> | Some us \<Rightarrow> us)\<lparr>primary := Some s\<rparr>)
        else user_entry rs t u)
   \<and> user_entry (snd (remove_user tid uid rs)) t u
     = (if t = tid \<and> u = uid then None else user_entry rs t u)
   \<and> user_entry (snd (close_room tid rs)) t u = (if t = tid then None else user_entry rs t u)
   \<and> (map_of rs tid = None \<longrightarrow>
        \<not> is_active (snd (remove_user tid uid (add_socket tid uid s c rs))) tid)
   \<and> (\<forall>r. map_of rs tid = Some r \<and> map_of (users r) uid = None \<longrightarrow>
        remove_user tid uid (add_socket tid uid s c rs) = (True, rs))"
proof -
  have a: "map_of rs tid = None \<longrightarrow>
        \<not> is_active (snd (remove_user tid uid (add_socket tid uid s c rs))) tid"
    using attach_remove_user_new_room by blast
  have b: "\<forall>r. map_of rs tid = Some r \<and> map_of (users r) uid = None \<longrightarrow>
        remove_user tid uid (add_socket tid uid s c rs) = (True, rs)"
    using attach_remove_user_roundtrip by blast
  show ?thesis
    by (intro conjI)
       (rule user_entry_remove_dead_socket, rule user_ids_remove_dead_socket,
        rule is_active_remove_dead_socket, rule is_active_after_attach_detach,
        rule entry_after_attach_detach, rule user_entry_add_socket,
        rule user_entry_remove_user, rule user_entry_close_room, rule a, rule b)
qed

theorem entry_removed_by_remove_user_only_witness:
  "map_of ([] :: rooms) ''T1'' = None
   \<and> \<not> is_active (snd (remove_user ''T1'' ''u1'' (add_socket ''T1'' ''u1'' 7 False []))) ''T1''
   \<and> map_of (chat_manager server_chat1) ''T1''
       = Some \<lparr>users = [(''t1'', \<lparr>primary = Some 5, chat = None\<rparr>)], messages = []\<rparr>
   \<and> remove_user ''T1'' ''u1'' (add_socket ''T1'' ''u1'' 7 False (chat_manager server_chat1))
       = (True, chat_manager server_chat1)
   \<and> is_active (remove_dead_socket ''T1'' 7
        (add_socket ''T1'' ''u1'' 7 False (chat_manager server_chat1))) ''T1''
   \<and> user_entry (remove_dead_socket ''T1'' 7
        (add_socket ''T1'' ''u1'' 7 False (chat_manager server_chat1))) ''T1'' ''u1''
       = Some \<lparr>primary = None, chat = None\<rparr>
   \<and> user_entry (remove_dead_socket ''T1'' 7
        (add_socket ''T1'' ''u1'' 7 False (chat_manager server_chat1))) ''T1'' ''t1''
       = Some \<lparr>primary = Some 5, chat = None\<rparr>"
proof -
  have h1: "map_of ([] :: rooms) ''T1'' = None" by simp
  have h2: "map_of (chat_manager server_chat1) ''T1''
       = Some \<lparr>users = [(''t1'', \<lparr>primary = Some 5, chat = None\<rparr>)], messages = []\<rparr>"
    by (simp add: server_chat1_eq)
  have h3: "map_of (users \<lparr>users = [(''t1'', \<lparr>primary = Some 5, chat = None\<rparr>)], messages = []\<rparr>)
              ''u1'' = None"
    by simp
  have e0: "user_entry (chat_manager server_chat1) ''T1'' ''u1'' = None"
    "user_entry (chat_manager server_chat1) ''T1'' ''t1'' = Some \<lparr>primary = Some 5, chat = None\<rparr>"
    by (simp_all add: user_entry_def h2)
  from entry_removed_by_remove_user_only
         [of "''T1''" 7 "chat_manager server_chat1" "''T1''" "''u1''" "''T1''" 7 "''u1''" False]
       entry_removed_by_remove_user_only
         [of "''T1''" 7 "[]" "''T1''" "''u1''" "''T1''" 7 "''u1''" False]
       h1 h2 h3
  have p1: "\<not> is_active (snd (remove_user ''T1'' ''u1'' (add_socket ''T1'' ''u1'' 7 False []))) ''T1''
   \<and> remove_user ''T1'' ''u1'' (add_socket ''T1'' ''u1'' 7 False (chat_manager server_chat1))
       = (True, chat_manager server_chat1)
   \<and> is_active (remove_dead_socket ''T1'' 7
        (add_socket ''T1'' ''u1'' 7 False (chat_manager server_chat1))) ''T1''"
    by simp
  from entry_removed_by_remove_user_only
         [of "''T1''" 7 "add_socket ''T1'' ''u1'' 7 False (chat_manager server_chat1)"
             "''T1''" "''u1''" "''T1''" 7 "''u1''" False]
       entry_removed_by_remove_user_only
         [of "''T1''" 7 "chat_manager server_chat1" "''T1''" "''u1''" "''T1''" 7 "''u1''" False] e0
  have p2: "user_entry (remove_dead_socket ''T1'' 7
        (add_socket ''T1'' ''u1'' 7 False (chat_manager server_chat1))) ''T1'' ''u1''
       = Some \<lparr>primary = None, chat = None\<rparr>"
    by (simp add: clear_socket_def)
  from entry_removed_by_remove_user_only
         [of "''T1''" 7 "add_socket ''T1'' ''u1'' 7 False (chat_manager server_chat1)"
             "''T1''" "''t1''" "''T1''" 7 "''u1''" False]
       entry_removed_by_remove_user_only
         [of "''T1''" 7 "chat_manager server_chat1" "''T1''" "''t1''" "''T1''" 7 "''u1''" False] e0
  have p3: "user_entry (remove_dead_socket ''T1'' 7
        (add_socket ''T1'' ''u1'' 7 False (chat_manager server_chat1))) ''T1'' ''t1''
       = Some \<lparr>primary = Some 5, chat = None\<rparr>"
    by (simp add: clear_socket_def)
  from h1 h2 p1 p2 p3 show ?thesis by blast
qed

section \<open>Broadcasting a chat message\<close>

lemmas broadcast_defs = broadcast_chat_message_def server_room_def registry_t1_def rooms_t1_u1_u2_def
  create_session_def new_session_manager_def get_session_by_id_def truthy_str_def
  truthy_socket_def format_message_def get_user_def db0_def py_str_def get_chat_sockets_def
  get_primary_sockets_def excluded_def send_data_def all_ok_def all_closed_def Let_def
  remove_dead_socket_def clear_socket_def

lemma send_to_chat_sockets_all_ok:
  assumes "\<forall>n h. net n h = SOCK_STATUS_OK"
  shows "send_to_chat_sockets net tid msg hs (n, w)
         = (n + length hs, w\<lparr>sent := sent w @ map (\<lambda>h. (h, msg, SOCK_STATUS_OK)) hs\<rparr>)"
  using assms
  by (induction hs arbitrary: n w) (simp_all add: send_data_def Let_def)

lemma send_to_primary_sockets_all_ok:
  assumes "\<forall>n h. net n h = SOCK_STATUS_OK"
  shows "send_to_primary_sockets net msg hs (n, w)
         = (n + length hs, w\<lparr>sent := sent w @ map (\<lambda>h. (h, msg, SOCK_STATUS_OK)) hs\<rparr>)"
  using assms
  by (induction hs arbitrary: n w) (simp_all add: send_data_def Let_def)

text \<open>
  C5 (as the claim states it, refuted).  The room of \<open>T1\<close> holds the sender
  \<open>t1\<close>, \<open>u1\<close> with the primary socket 7 only and \<open>u2\<close> with the primary
  socket 8 and the chat socket 9; every send succeeds.  The message goes to
  socket 9 and to no other: \<open>u1\<close> receives no copy.
\<close>

theorem primary_only_recipient_gets_no_copy:
  "broadcast_chat_message all_ok ''10:00'' 5 ''tok1'' ''T1'' ''hello'' server_room
   = (True, server_room\<lparr>sent := [(9, ''MESSAGE|Tom|t1|10:00|hello|None'', SOCK_STATUS_OK)]\<rparr>)
   \<and> get_primary_sockets (chat_manager server_room) ''T1'' (Some ''t1'') = [7, 8]
   \<and> get_chat_sockets (chat_manager server_room) ''T1'' (Some ''t1'') = [9]"
  by (simp add: broadcast_defs)

text \<open>
  C5 (amended).  With every send succeeding, the message of a sender with a
  valid session goes exactly once to each chat socket of the other
  participants and to no primary socket as soon as there is one such chat
  socket; only when there is none does it go, once, to each primary socket
  of the other participants.  So a recipient holding both slots receives one
  copy, on the chat socket, and a recipient holding a primary socket only
  receives none beside it.
\<close>

theorem broadcast_all_ok_once_per_chat_socket:
  assumes "get_session_by_id (session_manager w) sid = Some s"
      and "\<forall>n h. net n h = SOCK_STATUS_OK"
  shows "(get_chat_sockets (chat_manager w) tid (Some (user_id s)) \<noteq> [] \<longrightarrow>
            broadcast_chat_message net ts k sid tid msg w
            = (True, w\<lparr>sent := sent w @ map (\<lambda>h. (h, format_message s ts msg (db w), SOCK_STATUS_OK))
                                (get_chat_sockets (chat_manager w) tid (Some (user_id s)))\<rparr>))
       \<and> (get_chat_sockets (chat_manager w) tid (Some (user_id s)) = [] \<longrightarrow>
            broadcast_chat_message net ts k sid tid msg w
            = (get_primary_sockets (chat_manager w) tid (Some (user_id s)) \<noteq> [],
               w\<lparr>sent := sent w @ map (\<lambda>h. (h, format_message s ts msg (db w), SOCK_STATUS_OK))
                                (get_primary_sockets (chat_manager w) tid (Some (user_id s)))\<rparr>))"
  using assms
  by (auto simp: broadcast_chat_message_def Let_def send_to_chat_sockets_all_ok
        send_to_primary_sockets_all_ok)


theorem broadcast_all_ok_once_per_chat_socket_witness:
  "(get_session_by_id (session_manager server_room) ''tok1''
     = Some \<lparr>session_id = ''tok1'', user_id = ''t1'', role = ''tutor'', name = ''Tom'',
              login_time = 0, session_is_active = True, socket = Some 5\<rparr>
   \<and> (\<forall>n h. all_ok n h = SOCK_STATUS_OK)
   \<and> get_chat_sockets (chat_manager server_room) ''T1'' (Some ''t1'') = [9]
   \<and> broadcast_chat_message all_ok ''09:30'' 5 ''tok1'' ''T1'' ''hi'' server_room
       = (True, server_room\<lparr>sent := [(9, ''MESSAGE|Tom|t1|09:30|hi|None'', SOCK_STATUS_OK)]\<rparr>))
   \<and> (get_chat_sockets (chat_manager server_primary_only) ''T1'' (Some ''t1'') = []
   \<and> broadcast_chat_message all_ok ''09:30'' 5 ''tok1'' ''T1'' ''hi'' server_primary_only
       = (True, server_primary_only\<lparr>sent := [(7, ''MESSAGE|Tom|t1|09:30|hi|None'', SOCK_STATUS_OK)]\<rparr>))"
proof -
  have h1: "get_session_by_id (session_manager server_room) ''tok1''
     = Some \<lparr>session_id = ''tok1'', user_id = ''t1'', role = ''tutor'', name = ''Tom'',
              login_time = 0, session_is_active = True, socket = Some 5\<rparr>"
    by (simp add: server_room_def registry_t1_def create_session_def new_session_manager_def
          get_session_by_id_def truthy_str_def Let_def)
  have h2: "\<forall>n h. all_ok n h = SOCK_STATUS_OK"
    by (simp add: all_ok_def)
  have h3: "get_chat_sockets (chat_manager server_room) ''T1'' (Some ''t1'') = [9]"
    by (simp add: server_room_def rooms_t1_u1_u2_def get_chat_sockets_def excluded_def
          truthy_str_def truthy_socket_def)
  have h4: "format_message \<lparr>session_id = ''tok1'', user_id = ''t1'', role = ''tutor'', name = ''Tom'',
              login_time = 0, session_is_active = True, socket = Some 5\<rparr> ''09:30'' ''hi''
              (db server_room) = ''MESSAGE|Tom|t1|09:30|hi|None''"
    by (simp add: format_message_def server_room_def db0_def get_user_def py_str_def)
  have h5: "sent server_room = []"
    by (simp add: server_room_def)
  from broadcast_all_ok_once_per_chat_socket[OF h1 h2, of "''T1''" "''09:30''" 5 "''hi''"]
       h3 h4 h5
  have "broadcast_chat_message all_ok ''09:30'' 5 ''tok1'' ''T1'' ''hi'' server_room
       = (True, server_room\<lparr>sent := [(9, ''MESSAGE|Tom|t1|09:30|hi|None'', SOCK_STATUS_OK)]\<rparr>)"
    by simp
  with h1 h2 h3 have part1: "get_session_by_id (session_manager server_room) ''tok1''
     = Some \<lparr>session_id = ''tok1'', user_id = ''t1'', role = ''tutor'', name = ''Tom'',
              login_time = 0, session_is_active = True, socket = Some 5\<rparr>
   \<and> (\<forall>n h. all_ok n h = SOCK_STATUS_OK)
   \<and> get_chat_sockets (chat_manager server_room) ''T1'' (Some ''t1'') = [9]
   \<and> broadcast_chat_message all_ok ''09:30'' 5 ''tok1'' ''T1'' ''hi'' server_room
       = (True, server_room\<lparr>sent := [(9, ''MESSAGE|Tom|t1|09:30|hi|None'', SOCK_STATUS_OK)]\<rparr>)"
    by blast

  have nh1: "get_session_by_id (session_manager server_primary_only) ''tok1''
     = Some \<lparr>session_id = ''tok1'', user_id = ''t1'', role = ''tutor'', name = ''Tom'',
              login_time = 0, session_is_active = True, socket = Some 5\<rparr>"
    by (simp add: server_primary_only_def server_room_def registry_t1_def create_session_def new_session_manager_def
          get_session_by_id_def truthy_str_def Let_def)
  have nh2: "\<forall>n h. all_ok n h = SOCK_STATUS_OK"
    by (simp add: all_ok_def)
  have nh3: "get_chat_sockets (chat_manager server_primary_only) ''T1'' (Some ''t1'') = []"
    by (simp add: server_primary_only_def get_chat_sockets_def excluded_def
          truthy_str_def truthy_socket_def)
  have nh3b: "get_primary_sockets (chat_manager server_primary_only) ''T1'' (Some ''t1'') = [7]"
    by (simp add: server_primary_only_def get_primary_sockets_def excluded_def
          truthy_str_def truthy_socket_def)
  have nh4: "format_message \<lparr>session_id = ''tok1'', user_id = ''t1'', role = ''tutor'', name = ''Tom'',
              login_time = 0, session_is_active = True, socket = Some 5\<rparr> ''09:30'' ''hi''
              (db server_primary_only) = ''MESSAGE|Tom|t1|09:30|hi|None''"
    by (simp add: format_message_def server_primary_only_def server_room_def db0_def get_user_def py_str_def)
  have nh5: "sent server_primary_only = []"
    by (simp add: server_primary_only_def server_room_def)
  from broadcast_all_ok_once_per_chat_socket[OF nh1 h2, of "''T1''" "''09:30''" 5 "''hi''"]
       nh3 nh3b nh4 nh5
  have "broadcast_chat_message all_ok ''09:30'' 5 ''tok1'' ''T1'' ''hi'' server_primary_only
       = (True, server_primary_only\<lparr>sent := [(7, ''MESSAGE|Tom|t1|09:30|hi|None'', SOCK_STATUS_OK)]\<rparr>)"
    by simp
  with nh3 have part2: "get_chat_sockets (chat_manager server_primary_only) ''T1'' (Some ''t1'') = []
   \<and> broadcast_chat_message all_ok ''09:30'' 5 ''tok1'' ''T1'' ''hi'' server_primary_only
       = (True, server_primary_only\<lparr>sent := [(7, ''MESSAGE|Tom|t1|09:30|hi|None'', SOCK_STATUS_OK)]\<rparr>)"
    by blast
  from part1 part2 show ?thesis by blast
qed

text \<open>
  C6.  Same room, every send answered \<open>SOCK_STATUS_CLOSED\<close>.  The chat
  socket 9 fails and is detached (the chat slot of \<open>u2\<close> is \<open>None\<close>
  afterwards); no chat send succeeded, so the message is retried on the
  primary sockets 7 and 8; both sends fail, and both sockets are still in
  their slots: the fallback loop does not call \<open>remove_dead_socket\<close>.  The
  result is \<open>False\<close>.
\<close>

theorem failed_fallback_send_not_detached:
  "broadcast_chat_message all_closed ''10:00'' 5 ''tok1'' ''T1'' ''hello'' server_room
   = (False, server_room\<lparr>
        chat_manager :=
          [(''T1'', \<lparr>users = [(''t1'', \<lparr>primary = Some 5, chat = Some 6\<rparr>),
                              (''u1'', \<lparr>primary = Some 7, chat = None\<rparr>),
                              (''u2'', \<lparr>primary = Some 8, chat = None\<rparr>)],
                    messages = []\<rparr>)],
        sent := [(9, ''MESSAGE|Tom|t1|10:00|hello|None'', SOCK_STATUS_CLOSED),
                 (7, ''MESSAGE|Tom|t1|10:00|hello|None'', SOCK_STATUS_CLOSED),
                 (8, ''MESSAGE|Tom|t1|10:00|hello|None'', SOCK_STATUS_CLOSED)]\<rparr>)"
  by (simp add: broadcast_defs)


section \<open>The command loop\<close>
















section \<open>The session timer\<close>

lemma timer_noop_when_ended:
  assumes "5 < duration" and "get_active_chat (db (sleep1 w)) tid = None"
  shows "chat_session_timer net sleep1 sleep2 tid duration w
         = ([((duration - 5) * 60, Ended_before_warning)], sleep1 w)"
  using assms by (simp add: chat_session_timer_def Let_def)

lemma timer_warns_then_ends:
  assumes "5 < duration" and "get_active_chat (db (sleep1 w)) tid \<noteq> None"
      and "get_active_chat (db (sleep2 (send_each net (get_chat_sockets (chat_manager (sleep1 w)) tid None)
                       ''WARNING:5 minutes remaining'' (sleep1 w)))) tid \<noteq> None"
  shows "fst (chat_session_timer net sleep1 sleep2 tid duration w)
         = [((duration - 5) * 60, Warning_sent), (duration * 60, Chat_ended_by_timer)]"
  using assms by (auto simp add: chat_session_timer_def timer_end_chat_def Let_def algebra_simps)


lemma sleep_restart_eq:
  "sleep_restart server_chat1
   = server_chat1\<lparr>
       chat_manager := [(''T1'', \<lparr>users = [(''t1'', \<lparr>primary = Some 5, chat = Some 6\<rparr>)],
                                 messages = []\<rparr>)],
       db := (db server_chat1)\<lparr>
          active_chats_tbl := [(''T1'', \<lparr>tutor_id = ''t1'', start_time = 240, end_time = 3840,
                                         chat_session_id = ''c2''\<rparr>)],
          attendance_tbl := attendance_tbl (db server_chat1) @
            [\<lparr>a_chat_session_id = ''c2'', a_tutorial_id = ''T1'', student_id = ''u1'',
              first_join_time = 0, last_seen_time = 0, total_duration_seconds = 0,
              is_present = False\<rparr>,
             \<lparr>a_chat_session_id = ''c2'', a_tutorial_id = ''T1'', student_id = ''u2'',
              first_join_time = 0, last_seen_time = 0, total_duration_seconds = 0,
              is_present = False\<rparr>]\<rparr>,
       sent := [(5, ''CHAT_STARTED:c1'', SOCK_STATUS_OK), (5, ''CHAT_STARTED:c2'', SOCK_STATUS_OK)],
       timers := [(''T1'', 10), (''T1'', 60)]\<rparr>"
  by (simp add: sleep_restart_def server_chat1_eq handle_end_chat_def end_chat_def
        get_chat_sockets_def excluded_def truthy_str_def truthy_socket_def close_room_def
        handle_start_chat_def py_int_def int_strip_def py_int_isspace_def strip_def py_isspace_def
        digits_value_def is_digit_def start_chat_def get_active_chat_def db0_def
        add_socket_def initialize_attendance_for_session_def
        get_students_in_tutorial_def send_data_def all_ok_def Let_def)

text \<open>
  C8.  The tutor starts a chat on \<open>T1\<close> for 10 minutes (session \<open>c1\<close>); its
  timer sleeps 5 minutes.  Meanwhile the tutor ends the chat, starts a new
  one on \<open>T1\<close> for 60 minutes at second 240 (session \<open>c2\<close>, due to end at
  second 3840) and attaches a chat socket.  The first timer wakes at second
  300, finds an active chat for \<open>T1\<close>, and sends the warning; at second 600
  it finds one again, deletes it, sends \<open>CHAT_ENDED\<close> and closes the room:
  the chat it ends is \<open>c2\<close>, although the chat it was started for had been
  ended by hand before both wake points.
\<close>

theorem stale_timer_ends_restarted_chat:
  "get_active_chat (db (sleep_restart server_chat1)) ''T1''
     = Some \<lparr>tutor_id = ''t1'', start_time = 240, end_time = 3840, chat_session_id = ''c2''\<rparr>
   \<and> fst (chat_session_timer all_ok sleep_restart (\<lambda>w. w) ''T1'' 10 server_chat1)
       = [(300, Warning_sent), (600, Chat_ended_by_timer)]
   \<and> sent (snd (chat_session_timer all_ok sleep_restart (\<lambda>w. w) ''T1'' 10 server_chat1))
       = [(5, ''CHAT_STARTED:c1'', SOCK_STATUS_OK), (5, ''CHAT_STARTED:c2'', SOCK_STATUS_OK),
          (6, ''WARNING:5 minutes remaining'', SOCK_STATUS_OK), (6, ''CHAT_ENDED'', SOCK_STATUS_OK)]
   \<and> get_active_chat
         (db (snd (chat_session_timer all_ok sleep_restart (\<lambda>w. w) ''T1'' 10 server_chat1))) ''T1''
       = None
   \<and> chat_manager (snd (chat_session_timer all_ok sleep_restart (\<lambda>w. w) ''T1'' 10 server_chat1))
       = []"
  by (simp add: chat_session_timer_def timer_end_chat_def sleep_restart_eq Let_def
        get_active_chat_def get_chat_sockets_def excluded_def truthy_str_def truthy_socket_def
        send_data_def all_ok_def end_chat_def close_room_def)


end
